theory Spec2Isabelle
  imports Main "HOL-Library.Char_ord" "HOL-Library.List_Lexorder" "HOL-Library.Sublist"
    "HOL-Library.Multiset"
begin

section \<open>Python strings and slices\<close>

text \<open>
  A Python \<open>str\<close> is modelled as a \<open>string\<close> whose characters are the code points
  below 256. Comparison of strings is Python's: lexicographic by code point, which is the
  order that \<open>Char_ord\<close> and \<open>List_Lexorder\<close> put on \<open>char list\<close>.
\<close>

definition is_upper :: "char \<Rightarrow> bool" where
  "is_upper c =
     (let n = (of_char c :: nat)
      in (65 \<le> n \<and> n \<le> 90) \<or> (192 \<le> n \<and> n \<le> 222 \<and> n \<noteq> 215))"

text \<open>\<open>str.lower()\<close>: an upper-case letter is moved 32 code points up, which sets bit 5.\<close>

definition lower_char :: "char \<Rightarrow> char" where
  "lower_char c =
     (if is_upper c
      then (case c of Char b0 b1 b2 b3 b4 b5 b6 b7 \<Rightarrow> Char b0 b1 b2 b3 b4 True b6 b7)
      else c)"

definition lower :: "string \<Rightarrow> string" where
  "lower s = map lower_char s"

text \<open>\<open>needle in haystack\<close> on strings: the needle occurs as a contiguous substring.\<close>

fun py_in :: "string \<Rightarrow> string \<Rightarrow> bool" where
  "py_in needle [] = (needle = [])"
| "py_in needle (c # cs) = (prefix needle (c # cs) \<or> py_in needle cs)"

text \<open>\<open>sep.join(parts)\<close> with the separator \<open>' '\<close>.\<close>

fun join_space :: "string list \<Rightarrow> string" where
  "join_space [] = []"
| "join_space [p] = p"
| "join_space (p # q # ps) = p @ '' '' @ join_space (q # ps)"

text \<open>The slice \<open>xs[:n]\<close>: a negative \<open>n\<close> counts from the end of the list.\<close>

definition slice_to :: "int \<Rightarrow> 'a list \<Rightarrow> 'a list" where
  "slice_to n xs = (if 0 \<le> n then take (nat n) xs else take (length xs - nat (- n)) xs)"

text \<open>\<open>d.get(key, default)\<close> on a key whose value, when present, is of the expected type.\<close>

definition get :: "'a option \<Rightarrow> 'a \<Rightarrow> 'a" where
  "get field dflt = (case field of None \<Rightarrow> dflt | Some v \<Rightarrow> v)"

section \<open>Threat records\<close>

text \<open>
  A threat is a Python dict. The scrapers write nine keys and the AI processor adds four;
  every reader goes through \<open>.get\<close> with a default, so each key is optional.
\<close>

record threat =
  feed_id :: "string option"
  source :: "string option"
  source_url :: "string option"
  title :: "string option"
  severity :: "string option"
  published_date :: "string option"
  fetched_date :: "string option"
  full_content :: "string option"
  tags :: "string list option"
  quick_summary :: "string option"
  iocs :: "string list option"
  affected_systems :: "string list option"
  recommendations :: "string list option"

datatype error = Exception string

section \<open>ThreatIntelligenceManager\<close>

text \<open>
  \<open>scrapers\<close> is the registry dict in insertion order; a scraper is its \<open>fetch_threats\<close>
  method, which may raise. \<open>ai_processor\<close> is the processor's \<open>enrich_threat\<close> method.
  A \<open>datetime\<close> is a number of microseconds, a \<open>timedelta\<close> their difference.
  Each operation of the manager returns its result together with the manager as the
  call leaves it and the scraper calls it made.
\<close>

type_synonym scraper = "int \<Rightarrow> error + threat list"

type_synonym datetime = int

record manager =
  scrapers :: "(string \<times> scraper) list"
  ai_processor :: "threat \<Rightarrow> error + threat"
  threat_cache :: "threat list"
  last_fetch_time :: "datetime option"
  cache_duration :: int

text \<open>The calls made to scrapers during one operation: source name and limit, in order.\<close>

type_synonym calls = "(string \<times> int) list"

definition is_cache_valid :: "manager \<Rightarrow> datetime \<Rightarrow> bool" where
  "is_cache_valid m utcnow =
     (case last_fetch_time m of
        None \<Rightarrow> False
      | Some fetched \<Rightarrow>
          if threat_cache m = [] then False
          else (let age = utcnow - fetched in age < cache_duration m))"

text \<open>The enrichment loop: an item whose enrichment raises is appended unenriched.\<close>

fun enrich_all :: "(threat \<Rightarrow> error + threat) \<Rightarrow> threat list \<Rightarrow> threat list" where
  "enrich_all ai [] = []"
| "enrich_all ai (t # ts) =
     (case ai t of Inr enriched \<Rightarrow> enriched | Inl e \<Rightarrow> t) # enrich_all ai ts"

text \<open>
  The loop over \<open>self.scrapers.items()\<close>: a scraper that raises contributes nothing.
  Returns \<open>all_threats\<close> and the scraper calls made.
\<close>

fun fetch_sources ::
  "(threat \<Rightarrow> error + threat) \<Rightarrow> int \<Rightarrow> bool \<Rightarrow> (string \<times> scraper) list \<Rightarrow> threat list \<times> calls"
where
  "fetch_sources ai limit_per_source use_ai [] = ([], [])"
| "fetch_sources ai limit_per_source use_ai ((source_name, scraper) # rest) =
     (let fetched =
            (case scraper limit_per_source of
               Inl e \<Rightarrow> []
             | Inr threats \<Rightarrow>
                 if use_ai \<and> threats \<noteq> [] then enrich_all ai threats else threats);
          (more, called) = fetch_sources ai limit_per_source use_ai rest
      in (fetched @ more, (source_name, limit_per_source) # called))"

text \<open>
  \<open>all_threats.sort(key=..., reverse=True)\<close>: a stable sort, descending; with
  \<open>reverse=True\<close> the list is reversed, sorted ascending and stable, and reversed again.
\<close>

definition published_key :: "threat \<Rightarrow> string" where
  "published_key x = get (published_date x) ''''"

definition sort_published_desc :: "threat list \<Rightarrow> threat list" where
  "sort_published_desc xs = rev (sort_key published_key (rev xs))"

text \<open>
  \<open>fetch_all_threats\<close> reads the clock twice: \<open>utcnow\<close> in the validity check and
  \<open>utcnow'\<close> when it stamps the cache. Nothing outside the per-source handler can raise
  on these types, so the outer handler (which would return the old cache) is never entered.
\<close>

definition fetch_all_threats ::
  "manager \<Rightarrow> int \<Rightarrow> bool \<Rightarrow> datetime \<Rightarrow> datetime \<Rightarrow> threat list \<times> manager \<times> calls"
where
  "fetch_all_threats m limit_per_source use_ai utcnow utcnow' =
     (if is_cache_valid m utcnow then (threat_cache m, m, [])
      else
        (let (collected, called) =
               fetch_sources (ai_processor m) limit_per_source use_ai (scrapers m);
             all_threats = sort_published_desc collected
         in (all_threats,
             m\<lparr>threat_cache := all_threats, last_fetch_time := Some utcnow'\<rparr>,
             called)))"

text \<open>
  \<open>fetch_threats_by_source\<close> never assigns to \<open>self\<close>; the manager is returned to make
  that visible. For an unknown source the code logs an error and returns the empty list.
\<close>

definition fetch_threats_by_source ::
  "manager \<Rightarrow> string \<Rightarrow> int \<Rightarrow> bool \<Rightarrow> (error + threat list) \<times> manager \<times> calls"
where
  "fetch_threats_by_source m src limit use_ai =
     (case map_of (scrapers m) src of
        None \<Rightarrow> (Inr [], m, [])
      | Some scraper \<Rightarrow>
          (case scraper limit of
             Inl e \<Rightarrow> (Inr [], m, [(src, limit)])
           | Inr threats \<Rightarrow>
               (Inr (if use_ai \<and> threats \<noteq> []
                     then enrich_all (ai_processor m) threats else threats),
                m, [(src, limit)])))"

text \<open>
  The loop of \<open>search_threats\<close> over the cache. \<open>if severity:\<close> is Python truthiness:
  \<open>None\<close> and the empty string both mean that no filter is applied.
\<close>

fun search_loop :: "string \<Rightarrow> string option \<Rightarrow> threat list \<Rightarrow> threat list" where
  "search_loop query_lower sev [] = []"
| "search_loop query_lower sev (threat # rest) =
     (let title_l = lower (get (title threat) '''');
          content = lower (get (full_content threat) '''');
          tags_l = lower (join_space (get (tags threat) []))
      in if py_in query_lower title_l \<or> py_in query_lower content \<or> py_in query_lower tags_l
         then (case sev of
                 None \<Rightarrow> threat # search_loop query_lower sev rest
               | Some s \<Rightarrow>
                   if s \<noteq> []
                   then (if lower (get (severity threat) '''') = lower s
                         then threat # search_loop query_lower sev rest
                         else search_loop query_lower sev rest)
                   else threat # search_loop query_lower sev rest)
         else search_loop query_lower sev rest)"

definition search_threats ::
  "manager \<Rightarrow> string \<Rightarrow> string option \<Rightarrow> datetime \<Rightarrow> datetime \<Rightarrow> threat list \<times> manager \<times> calls"
where
  "search_threats m query sev utcnow utcnow' =
     (let (m1, called) =
            (if threat_cache m = []
             then (let (fetched, m', c) = fetch_all_threats m 10 True utcnow utcnow' in (m', c))
             else (m, []))
      in (search_loop (lower query) sev (threat_cache m1), m1, called))"

definition force_refresh ::
  "manager \<Rightarrow> bool \<Rightarrow> datetime \<Rightarrow> datetime \<Rightarrow> threat list \<times> manager \<times> calls"
where
  "force_refresh m use_ai utcnow utcnow' =
     fetch_all_threats (m\<lparr>threat_cache := [], last_fetch_time := None\<rparr>) 10 use_ai utcnow utcnow'"

section \<open>AIThreatProcessor\<close>

text \<open>More of \<open>str\<close>: \<open>strip()\<close>, \<open>isdigit()\<close>, \<open>split('\n')\<close>.\<close>

definition is_space :: "char \<Rightarrow> bool" where
  "is_space c =
     (let n = (of_char c :: nat)
      in (9 \<le> n \<and> n \<le> 13) \<or> (28 \<le> n \<and> n \<le> 32) \<or> n = 133 \<or> n = 160)"

definition strip :: "string \<Rightarrow> string" where
  "strip s = rev (dropWhile is_space (rev (dropWhile is_space s)))"

definition is_decimal :: "char \<Rightarrow> bool" where
  "is_decimal c = (let n = (of_char c :: nat) in 48 \<le> n \<and> n \<le> 57)"

definition isdigit :: "char \<Rightarrow> bool" where
  "isdigit c = (let n = (of_char c :: nat) in is_decimal c \<or> n = 178 \<or> n = 179 \<or> n = 185)"

fun split_newline :: "string \<Rightarrow> string list" where
  "split_newline [] = [[]]"
| "split_newline (c # cs) =
     (if c = CHR 0x0A then [] # split_newline cs
      else (case split_newline cs of
              [] \<Rightarrow> [[c]]
            | piece # pieces \<Rightarrow> (c # piece) # pieces))"

text \<open>
  \<open>client\<close> is \<open>None\<close> when no API key is configured. A present client maps the request
  that one of the four methods builds from the threat to the text of
  \<open>response.choices[0].message.content\<close>, or to the exception raised on the way.
  \<open>set_order\<close> is the order in which the interpreter iterates \<open>set(iocs)\<close>.
\<close>

datatype request = SummaryRequest | IocsRequest | SystemsRequest | RecommendationsRequest

record processor =
  client :: "(request \<Rightarrow> threat \<Rightarrow> error + string) option"
  set_order :: "string list \<Rightarrow> string list"

definition fallback_summary :: "threat \<Rightarrow> string" where
  "fallback_summary t =
     (let title_s = get (title t) ''Unknown threat'';
          source_s = get (source t) ''Unknown source'';
          severity_s = get (severity t) ''unknown''
      in source_s @ '' reports a '' @ severity_s @ '' severity threat: '' @ title_s
         @ ''. Immediate review recommended for security teams.'')"

text \<open>
  One attempt of the pattern \<open>CVE-\d{4}-\d{4,7}\<close> (case ignored) at the head of the text;
  the last group is greedy.
\<close>

definition cve_match :: "string \<Rightarrow> string option" where
  "cve_match s =
     (let year = take 4 (drop 4 s);
          number = takeWhile is_decimal (take 7 (drop 9 s))
      in if lower (take 4 s) = ''cve-'' \<and> length year = 4 \<and> list_all is_decimal year
            \<and> take 1 (drop 8 s) = ''-'' \<and> 4 \<le> length number
         then Some (take (9 + length number) s) else None)"

text \<open>
  \<open>re.findall\<close>: leftmost matches that do not overlap. \<open>skip\<close> counts the characters
  still covered by the previous match.
\<close>

fun findall_from :: "nat \<Rightarrow> string \<Rightarrow> string list" where
  "findall_from skip [] = []"
| "findall_from skip (c # cs) =
     (if 0 < skip then findall_from (skip - 1) cs
      else (case cve_match (c # cs) of
              Some found \<Rightarrow> found # findall_from (length found - 1) cs
            | None \<Rightarrow> findall_from 0 cs))"

definition findall_cve :: "string \<Rightarrow> string list" where
  "findall_cve content = findall_from 0 content"

definition fallback_iocs :: "processor \<Rightarrow> threat \<Rightarrow> string list" where
  "fallback_iocs p t =
     (let content = get (full_content t) '''' @ '' '' @ get (title t) '''';
          cves = findall_cve content;
          iocs_l = [] @ cves
      in slice_to 5 (set_order p iocs_l))"

definition common_systems :: "string list" where
  "common_systems =
     [''Windows'', ''Linux'', ''macOS'', ''iOS'', ''Android'',
      ''Chrome'', ''Firefox'', ''Safari'', ''Edge'',
      ''Apache'', ''nginx'', ''IIS'', ''MySQL'', ''PostgreSQL'']"

definition fallback_affected_systems :: "threat \<Rightarrow> string list" where
  "fallback_affected_systems t =
     (let content = lower (get (title t) '''' @ '' '' @ get (full_content t) '''');
          systems = filter (\<lambda>system. py_in (lower system) content) common_systems
      in if systems \<noteq> [] then slice_to 5 systems
         else [''Multiple systems potentially affected''])"

definition fallback_recommendations :: "threat \<Rightarrow> string list" where
  "fallback_recommendations t =
     (let severity_s = get (severity t) ''medium'';
          base_recs =
            [''Review security logs for signs of compromise'',
             ''Ensure all systems are patched to the latest versions'',
             ''Monitor network traffic for suspicious activity''];
          base_recs =
            (if severity_s \<in> set [''critical'', ''high'']
             then (''Implement emergency security measures immediately'' # base_recs)
                  @ [''Consider temporary isolation of affected systems'']
             else base_recs)
      in slice_to 5 base_recs)"

definition generate_quick_summary :: "processor \<Rightarrow> threat \<Rightarrow> string" where
  "generate_quick_summary p t =
     (case client p of
        None \<Rightarrow> fallback_summary t
      | Some create \<Rightarrow>
          (case create SummaryRequest t of
             Inl e \<Rightarrow> fallback_summary t
           | Inr content \<Rightarrow> strip content))"

text \<open>The list comprehension \<open>[x.strip() for x in text.split('\n') if x.strip()]\<close>.\<close>

definition stripped_lines :: "string \<Rightarrow> string list" where
  "stripped_lines text = map strip (filter (\<lambda>x. strip x \<noteq> []) (split_newline text))"

definition extract_iocs :: "processor \<Rightarrow> threat \<Rightarrow> string list" where
  "extract_iocs p t =
     (case client p of
        None \<Rightarrow> fallback_iocs p t
      | Some create \<Rightarrow>
          (case create IocsRequest t of
             Inl e \<Rightarrow> fallback_iocs p t
           | Inr content \<Rightarrow>
               (let iocs_text = strip content
                in if lower iocs_text = ''none'' then []
                   else slice_to 10 (stripped_lines iocs_text))))"

definition identify_affected_systems :: "processor \<Rightarrow> threat \<Rightarrow> string list" where
  "identify_affected_systems p t =
     (case client p of
        None \<Rightarrow> fallback_affected_systems t
      | Some create \<Rightarrow>
          (case create SystemsRequest t of
             Inl e \<Rightarrow> fallback_affected_systems t
           | Inr content \<Rightarrow>
               (let systems_text = strip content
                in if lower systems_text = ''not specified'' then [''Not specified in alert'']
                   else slice_to 5 (stripped_lines systems_text))))"

text \<open>
  The parsing loop of \<open>generate_recommendations\<close>. The bullet U+2022 that the source also
  accepts lies outside the code points modelled, so only digits and \<open>-\<close> start an item.
\<close>

fun parse_recommendations :: "string list \<Rightarrow> string list" where
  "parse_recommendations [] = []"
| "parse_recommendations (l # ls) =
     (let line = strip l
      in if line \<noteq> [] \<and> (isdigit (hd line) \<or> prefix ''-'' line)
         then (let rec = strip (dropWhile (\<lambda>c. c \<in> set ''0123456789.-'') line)
               in if rec \<noteq> [] then rec # parse_recommendations ls
                  else parse_recommendations ls)
         else parse_recommendations ls)"

definition generate_recommendations :: "processor \<Rightarrow> threat \<Rightarrow> string list" where
  "generate_recommendations p t =
     (case client p of
        None \<Rightarrow> fallback_recommendations t
      | Some create \<Rightarrow>
          (case create RecommendationsRequest t of
             Inl e \<Rightarrow> fallback_recommendations t
           | Inr content \<Rightarrow>
               (let recs_text = strip content
                in slice_to 5 (parse_recommendations (split_newline recs_text)))))"

text \<open>
  \<open>enrich_threat\<close> copies the dict and sets four keys. The four methods above return on
  every input, so its own handler (which would return the threat as it came) is never entered.
\<close>

definition enrich_threat :: "processor \<Rightarrow> threat \<Rightarrow> error + threat" where
  "enrich_threat p t =
     (let enriched = t;
          enriched = enriched\<lparr>quick_summary := Some (generate_quick_summary p t)\<rparr>;
          enriched = enriched\<lparr>iocs := Some (extract_iocs p t)\<rparr>;
          enriched = enriched\<lparr>affected_systems := Some (identify_affected_systems p t)\<rparr>;
          enriched = enriched\<lparr>recommendations := Some (generate_recommendations p t)\<rparr>
      in Inr enriched)"

section \<open>Scrapers\<close>

text \<open>
  What the scrapers read from outside: the entries of the two RSS feeds as
  \<open>feedparser.parse\<close> returns them (or the exception it raises), the response of the CISA
  advisories page, and the clock as the text of \<open>datetime.utcnow().isoformat()\<close>. The
  code reads the clock once for every date it writes; here all reads during one call of a
  scraper return the same text, so the items of one call carry one date.
\<close>

record entry =
  entry_id :: "string option"
  entry_link :: "string option"
  entry_title :: "string option"
  entry_published :: "string option"
  entry_summary :: "string option"

record world =
  cisa_feed :: "error + entry list"
  cisa_page :: "error + string"
  bleeping_feed :: "error + entry list"
  utcnow_iso :: string

text \<open>\<open>any(word in text for word in words)\<close> and \<open>s.split('/')[-1]\<close>.\<close>

definition any_in :: "string list \<Rightarrow> string \<Rightarrow> bool" where
  "any_in ws text = list_ex (\<lambda>word. py_in word text) ws"

definition last_segment :: "string \<Rightarrow> string" where
  "last_segment s = rev (takeWhile (\<lambda>c. c \<noteq> CHR ''/'') (rev s))"

definition parse_date :: "world \<Rightarrow> string \<Rightarrow> string" where
  "parse_date w date_str = (if date_str = [] then utcnow_iso w else date_str)"

subsection \<open>CISAScraper\<close>

definition CISA_determine_severity :: "string \<Rightarrow> string" where
  "CISA_determine_severity text =
     (let text_lower = lower text
      in if any_in [''critical'', ''emergency'', ''zero-day'', ''urgent''] text_lower
         then ''critical''
         else if any_in [''high'', ''important'', ''severe''] text_lower then ''high''
         else if any_in [''medium'', ''moderate''] text_lower then ''medium''
         else ''low'')"

definition CISA_extract_tags :: "string \<Rightarrow> string list" where
  "CISA_extract_tags text =
     (let text_lower = lower text;
          keywords =
            [''vulnerability'', ''malware'', ''ransomware'', ''phishing'',
             ''exploit'', ''patch'', ''cve'', ''dos'', ''ddos'', ''breach'',
             ''authentication'', ''encryption'', ''firewall'', ''network''];
          tags_l = filter (\<lambda>keyword. py_in keyword text_lower) keywords
      in slice_to 5 tags_l)"

definition CISA_entry_threat :: "world \<Rightarrow> entry \<Rightarrow> threat" where
  "CISA_entry_threat w e =
     \<lparr>feed_id = Some (''cisa_'' @ last_segment (get (entry_id e) '''')),
      source = Some ''CISA'',
      source_url = Some (get (entry_link e) ''https://www.cisa.gov''),
      title = Some (get (entry_title e) ''Untitled Alert''),
      severity = Some (CISA_determine_severity (get (entry_title e) '''')),
      published_date = Some (parse_date w (get (entry_published e) '''')),
      fetched_date = Some (utcnow_iso w),
      full_content = Some (get (entry_summary e) ''''),
      tags = Some (CISA_extract_tags
                (get (entry_title e) '''' @ '' '' @ get (entry_summary e) '''')),
      quick_summary = None, iocs = None, affected_systems = None, recommendations = None\<rparr>"

definition CISA_fetch_from_rss :: "world \<Rightarrow> int \<Rightarrow> threat list" where
  "CISA_fetch_from_rss w limit =
     (case cisa_feed w of
        Inl e \<Rightarrow> []
      | Inr entries \<Rightarrow> map (CISA_entry_threat w) (slice_to limit entries))"

text \<open>The web fallback returns the empty list whether the request succeeds or not.\<close>

definition CISA_fetch_from_web :: "world \<Rightarrow> int \<Rightarrow> threat list" where
  "CISA_fetch_from_web w limit = (case cisa_page w of Inl e \<Rightarrow> [] | Inr response \<Rightarrow> [])"

definition CISA_get_fallback_data :: "world \<Rightarrow> threat list" where
  "CISA_get_fallback_data w =
     [\<lparr>feed_id = Some ''cisa_mock_001'',
        source = Some ''CISA'',
        source_url = Some ''https://www.cisa.gov/cybersecurity-advisories'',
        title = Some ''Critical Vulnerability in Widely Used Software'',
        severity = Some ''critical'',
        published_date = Some (utcnow_iso w),
        fetched_date = Some (utcnow_iso w),
        full_content = Some ''CISA has identified a critical vulnerability affecting multiple systems. Immediate action recommended.'',
        tags = Some [''vulnerability'', ''critical'', ''patch''],
        quick_summary = None,
        iocs = None,
        affected_systems = None,
        recommendations = None\<rparr>,
      \<lparr>feed_id = Some ''cisa_mock_002'',
        source = Some ''CISA'',
        source_url = Some ''https://www.cisa.gov/cybersecurity-advisories'',
        title = Some ''Ransomware Campaign Targeting Healthcare Sector'',
        severity = Some ''high'',
        published_date = Some (utcnow_iso w),
        fetched_date = Some (utcnow_iso w),
        full_content = Some ''CISA warns of active ransomware campaign specifically targeting healthcare organizations.'',
        tags = Some [''ransomware'', ''healthcare'', ''malware''],
        quick_summary = None,
        iocs = None,
        affected_systems = None,
        recommendations = None\<rparr>]"

text \<open>
  The body of the \<open>try\<close> block of each \<open>fetch_threats\<close> is a function of its own, and
  \<open>fetch_threats\<close> adds the handler. The two helpers of the CISA body catch every
  exception themselves.
\<close>

definition CISA_fetch_threats_try :: "world \<Rightarrow> int \<Rightarrow> error + threat list" where
  "CISA_fetch_threats_try w limit =
     (let threats = CISA_fetch_from_rss w limit;
          threats = (if threats = [] then CISA_fetch_from_web w limit else threats)
      in Inr threats)"

definition CISA_fetch_threats :: "world \<Rightarrow> scraper" where
  "CISA_fetch_threats w limit =
     (case CISA_fetch_threats_try w limit of
        Inr threats \<Rightarrow> Inr threats
      | Inl e \<Rightarrow> Inr (CISA_get_fallback_data w))"

subsection \<open>CERTINScraper and FBIScraper\<close>

definition CERTIN_get_fallback_data :: "world \<Rightarrow> threat list" where
  "CERTIN_get_fallback_data w =
     [\<lparr>feed_id = Some ''certin_mock_001'',
        source = Some ''CERT-IN'',
        source_url = Some ''https://www.cert-in.org.in'',
        title = Some ''Multiple Vulnerabilities in Google Chrome'',
        severity = Some ''high'',
        published_date = Some (utcnow_iso w),
        fetched_date = Some (utcnow_iso w),
        full_content = Some ''CERT-IN has identified multiple vulnerabilities in Google Chrome browser that could allow attackers to execute arbitrary code. Users are advised to update immediately.'',
        tags = Some [''vulnerability'', ''chrome'', ''browser'', ''patch''],
        quick_summary = None,
        iocs = None,
        affected_systems = None,
        recommendations = None\<rparr>,
      \<lparr>feed_id = Some ''certin_mock_002'',
        source = Some ''CERT-IN'',
        source_url = Some ''https://www.cert-in.org.in'',
        title = Some ''Vulnerability in Android Operating System'',
        severity = Some ''high'',
        published_date = Some (utcnow_iso w),
        fetched_date = Some (utcnow_iso w),
        full_content = Some ''Multiple vulnerabilities discovered in Android OS affecting millions of devices. Security patches available.'',
        tags = Some [''android'', ''vulnerability'', ''mobile'', ''patch''],
        quick_summary = None,
        iocs = None,
        affected_systems = None,
        recommendations = None\<rparr>,
      \<lparr>feed_id = Some ''certin_mock_003'',
        source = Some ''CERT-IN'',
        source_url = Some ''https://www.cert-in.org.in'',
        title = Some ''Phishing Campaign Targeting Banking Customers'',
        severity = Some ''medium'',
        published_date = Some (utcnow_iso w),
        fetched_date = Some (utcnow_iso w),
        full_content = Some ''CERT-IN warns of sophisticated phishing campaign targeting online banking customers. Exercise caution with unsolicited emails.'',
        tags = Some [''phishing'', ''banking'', ''social engineering''],
        quick_summary = None,
        iocs = None,
        affected_systems = None,
        recommendations = None\<rparr>,
      \<lparr>feed_id = Some ''certin_mock_004'',
        source = Some ''CERT-IN'',
        source_url = Some ''https://www.cert-in.org.in'',
        title = Some ''Critical Vulnerability in Apache Web Server'',
        severity = Some ''critical'',
        published_date = Some (utcnow_iso w),
        fetched_date = Some (utcnow_iso w),
        full_content = Some ''A critical vulnerability has been discovered in Apache HTTP Server that could lead to remote code execution. Immediate patching recommended.'',
        tags = Some [''apache'', ''web server'', ''vulnerability'', ''rce''],
        quick_summary = None,
        iocs = None,
        affected_systems = None,
        recommendations = None\<rparr>]"

definition FBI_get_fallback_data :: "world \<Rightarrow> threat list" where
  "FBI_get_fallback_data w =
     [\<lparr>feed_id = Some ''fbi_mock_001'',
        source = Some ''FBI'',
        source_url = Some ''https://www.fbi.gov/investigate/cyber'',
        title = Some ''Ransomware Gang Targeting Critical Infrastructure'',
        severity = Some ''critical'',
        published_date = Some (utcnow_iso w),
        fetched_date = Some (utcnow_iso w),
        full_content = Some ''FBI warns of coordinated ransomware attacks targeting critical infrastructure sectors including healthcare, energy, and financial services. Organizations should implement enhanced security measures immediately.'',
        tags = Some [''ransomware'', ''critical_infrastructure'', ''cybercrime''],
        quick_summary = None,
        iocs = None,
        affected_systems = None,
        recommendations = None\<rparr>,
      \<lparr>feed_id = Some ''fbi_mock_002'',
        source = Some ''FBI'',
        source_url = Some ''https://www.fbi.gov/investigate/cyber'',
        title = Some ''Business Email Compromise Schemes on the Rise'',
        severity = Some ''high'',
        published_date = Some (utcnow_iso w),
        fetched_date = Some (utcnow_iso w),
        full_content = Some ''The FBI has observed a significant increase in business email compromise (BEC) schemes targeting companies of all sizes. These attacks have resulted in millions of dollars in losses.'',
        tags = Some [''business_email_compromise'', ''fraud'', ''phishing''],
        quick_summary = None,
        iocs = None,
        affected_systems = None,
        recommendations = None\<rparr>,
      \<lparr>feed_id = Some ''fbi_mock_003'',
        source = Some ''FBI'',
        source_url = Some ''https://www.fbi.gov/investigate/cyber'',
        title = Some ''Nation-State APT Group Conducting Espionage Campaign'',
        severity = Some ''high'',
        published_date = Some (utcnow_iso w),
        fetched_date = Some (utcnow_iso w),
        full_content = Some ''FBI and CISA jointly warn of nation-state advanced persistent threat (APT) group conducting widespread cyber espionage campaign targeting government and private sector networks.'',
        tags = Some [''nation-state'', ''apt'', ''espionage'', ''data_breach''],
        quick_summary = None,
        iocs = None,
        affected_systems = None,
        recommendations = None\<rparr>,
      \<lparr>feed_id = Some ''fbi_mock_004'',
        source = Some ''FBI'',
        source_url = Some ''https://www.fbi.gov/investigate/cyber'',
        title = Some ''Cryptocurrency Investment Fraud Alert'',
        severity = Some ''medium'',
        published_date = Some (utcnow_iso w),
        fetched_date = Some (utcnow_iso w),
        full_content = Some ''FBI warns of increasing cryptocurrency investment fraud schemes. Victims are lured through social media and fake investment platforms promising high returns.'',
        tags = Some [''fraud'', ''cryptocurrency'', ''scam''],
        quick_summary = None,
        iocs = None,
        affected_systems = None,
        recommendations = None\<rparr>]"

definition CERTIN_fetch_threats_try :: "world \<Rightarrow> int \<Rightarrow> error + threat list" where
  "CERTIN_fetch_threats_try w limit =
     (let threats = slice_to limit (CERTIN_get_fallback_data w) in Inr threats)"

definition CERTIN_fetch_threats :: "world \<Rightarrow> scraper" where
  "CERTIN_fetch_threats w limit =
     (case CERTIN_fetch_threats_try w limit of
        Inr threats \<Rightarrow> Inr threats
      | Inl e \<Rightarrow> Inr (slice_to limit (CERTIN_get_fallback_data w)))"

definition FBI_fetch_threats_try :: "world \<Rightarrow> int \<Rightarrow> error + threat list" where
  "FBI_fetch_threats_try w limit =
     (let threats = slice_to limit (FBI_get_fallback_data w) in Inr threats)"

definition FBI_fetch_threats :: "world \<Rightarrow> scraper" where
  "FBI_fetch_threats w limit =
     (case FBI_fetch_threats_try w limit of
        Inr threats \<Rightarrow> Inr threats
      | Inl e \<Rightarrow> Inr (slice_to limit (FBI_get_fallback_data w)))"

subsection \<open>BleepingComputerScraper\<close>

definition Bleeping_is_security_related :: "string \<Rightarrow> bool" where
  "Bleeping_is_security_related text =
     (let security_keywords =
            [''vulnerability'', ''exploit'', ''malware'', ''ransomware'', ''breach'',
             ''hack'', ''attack'', ''threat'', ''security'', ''patch'', ''zero-day'',
             ''phishing'', ''trojan'', ''virus'', ''backdoor'', ''spy''];
          text_lower = lower text
      in any_in security_keywords text_lower)"

definition Bleeping_determine_severity :: "string \<Rightarrow> string" where
  "Bleeping_determine_severity text =
     (let text_lower = lower text
      in if any_in [''zero-day'', ''critical'', ''actively exploited'', ''emergency''] text_lower
         then ''critical''
         else if any_in [''ransomware'', ''major breach'', ''widespread'', ''high''] text_lower
         then ''high''
         else if any_in [''vulnerability'', ''exploit'', ''attack''] text_lower then ''medium''
         else ''low'')"

text \<open>\<open>keyword.replace(' ', '_')\<close>.\<close>

definition underscored :: "string \<Rightarrow> string" where
  "underscored s = map (\<lambda>c. if c = CHR '' '' then CHR ''_'' else c) s"

definition Bleeping_extract_tags :: "string \<Rightarrow> string list" where
  "Bleeping_extract_tags text =
     (let text_lower = lower text;
          keywords =
            [''ransomware'', ''malware'', ''vulnerability'', ''exploit'', ''phishing'',
             ''data breach'', ''zero-day'', ''trojan'', ''spyware'', ''botnet'',
             ''ddos'', ''crypto'', ''banking'', ''windows'', ''linux'', ''android''];
          tags_l = map underscored (filter (\<lambda>keyword. py_in keyword text_lower) keywords)
      in slice_to 5 tags_l)"

definition Bleeping_entry_threat :: "world \<Rightarrow> entry \<Rightarrow> threat" where
  "Bleeping_entry_threat w e =
     (let title_s = get (entry_title e) ''''
      in \<lparr>feed_id = Some (''bleeping_'' @ last_segment (get (entry_id e) '''')),
          source = Some ''BleepingComputer'',
          source_url = Some (get (entry_link e) ''https://www.bleepingcomputer.com''),
          title = Some title_s,
          severity = Some (Bleeping_determine_severity title_s),
          published_date = Some (parse_date w (get (entry_published e) '''')),
          fetched_date = Some (utcnow_iso w),
          full_content = Some (get (entry_summary e) ''''),
          tags = Some (Bleeping_extract_tags (title_s @ '' '' @ get (entry_summary e) '''')),
          quick_summary = None, iocs = None, affected_systems = None,
          recommendations = None\<rparr>)"

definition Bleeping_fetch_from_rss :: "world \<Rightarrow> int \<Rightarrow> threat list" where
  "Bleeping_fetch_from_rss w limit =
     (case bleeping_feed w of
        Inl e \<Rightarrow> []
      | Inr entries \<Rightarrow>
          map (Bleeping_entry_threat w)
            (filter (\<lambda>e. Bleeping_is_security_related (get (entry_title e) ''''))
               (slice_to limit entries)))"

definition Bleeping_get_fallback_data :: "world \<Rightarrow> threat list" where
  "Bleeping_get_fallback_data w =
     [\<lparr>feed_id = Some ''bleeping_mock_001'',
        source = Some ''BleepingComputer'',
        source_url = Some ''https://www.bleepingcomputer.com'',
        title = Some ''Zero-Day Vulnerability Actively Exploited in the Wild'',
        severity = Some ''critical'',
        published_date = Some (utcnow_iso w),
        fetched_date = Some (utcnow_iso w),
        full_content = Some ''Security researchers have discovered a zero-day vulnerability being actively exploited by threat actors. The vulnerability affects multiple versions of popular software and allows remote code execution.'',
        tags = Some [''zero-day'', ''vulnerability'', ''exploit'', ''rce''],
        quick_summary = None,
        iocs = None,
        affected_systems = None,
        recommendations = None\<rparr>,
      \<lparr>feed_id = Some ''bleeping_mock_002'',
        source = Some ''BleepingComputer'',
        source_url = Some ''https://www.bleepingcomputer.com'',
        title = Some ''New Ransomware Strain Targets Enterprise Networks'',
        severity = Some ''high'',
        published_date = Some (utcnow_iso w),
        fetched_date = Some (utcnow_iso w),
        full_content = Some ''A new ransomware variant has been discovered targeting enterprise networks through compromised VPN credentials. The ransomware uses advanced encryption and demands payment in cryptocurrency.'',
        tags = Some [''ransomware'', ''malware'', ''enterprise'', ''vpn''],
        quick_summary = None,
        iocs = None,
        affected_systems = None,
        recommendations = None\<rparr>,
      \<lparr>feed_id = Some ''bleeping_mock_003'',
        source = Some ''BleepingComputer'',
        source_url = Some ''https://www.bleepingcomputer.com'',
        title = Some ''Microsoft Patches Critical Windows Vulnerabilities'',
        severity = Some ''high'',
        published_date = Some (utcnow_iso w),
        fetched_date = Some (utcnow_iso w),
        full_content = Some ''Microsoft has released emergency patches for multiple critical vulnerabilities in Windows OS. Users are urged to install updates immediately as proof-of-concept exploits are circulating.'',
        tags = Some [''windows'', ''vulnerability'', ''patch'', ''microsoft''],
        quick_summary = None,
        iocs = None,
        affected_systems = None,
        recommendations = None\<rparr>,
      \<lparr>feed_id = Some ''bleeping_mock_004'',
        source = Some ''BleepingComputer'',
        source_url = Some ''https://www.bleepingcomputer.com'',
        title = Some ''Banking Trojan Spreading Through Phishing Campaign'',
        severity = Some ''medium'',
        published_date = Some (utcnow_iso w),
        fetched_date = Some (utcnow_iso w),
        full_content = Some ''A sophisticated phishing campaign is distributing a banking trojan that steals credentials and financial information. The malware targets customers of major banks across multiple countries.'',
        tags = Some [''trojan'', ''phishing'', ''banking'', ''malware''],
        quick_summary = None,
        iocs = None,
        affected_systems = None,
        recommendations = None\<rparr>,
      \<lparr>feed_id = Some ''bleeping_mock_005'',
        source = Some ''BleepingComputer'',
        source_url = Some ''https://www.bleepingcomputer.com'',
        title = Some ''Major Data Breach Exposes Millions of User Records'',
        severity = Some ''high'',
        published_date = Some (utcnow_iso w),
        fetched_date = Some (utcnow_iso w),
        full_content = Some ''A major data breach has been disclosed affecting millions of users. Exposed data includes email addresses, hashed passwords, and personal information. Users are advised to change passwords immediately.'',
        tags = Some [''data_breach'', ''leak'', ''credentials''],
        quick_summary = None,
        iocs = None,
        affected_systems = None,
        recommendations = None\<rparr>]"

definition Bleeping_fetch_threats_try :: "world \<Rightarrow> int \<Rightarrow> error + threat list" where
  "Bleeping_fetch_threats_try w limit =
     (let threats = Bleeping_fetch_from_rss w limit;
          threats =
            (if threats = [] then slice_to limit (Bleeping_get_fallback_data w) else threats)
      in Inr threats)"

definition Bleeping_fetch_threats :: "world \<Rightarrow> scraper" where
  "Bleeping_fetch_threats w limit =
     (case Bleeping_fetch_threats_try w limit of
        Inr threats \<Rightarrow> Inr threats
      | Inl e \<Rightarrow> Inr (slice_to limit (Bleeping_get_fallback_data w)))"

subsection \<open>The manager as its constructor builds it\<close>

text \<open>One hour is 3600000000 microseconds.\<close>

definition new_manager :: "world \<Rightarrow> processor \<Rightarrow> manager" where
  "new_manager w p =
     \<lparr>scrapers =
        [(''CISA'', CISA_fetch_threats w),
         (''CERT-IN'', CERTIN_fetch_threats w),
         (''FBI'', FBI_fetch_threats w),
         (''BleepingComputer'', Bleeping_fetch_threats w)],
      ai_processor = enrich_threat p,
      threat_cache = [],
      last_fetch_time = None,
      cache_duration = 3600000000\<rparr>"

section \<open>Sample inputs\<close>

text \<open>
  A world in which every request fails, a processor without an API key (iterating a set
  in the order of \<open>remdups\<close>), and the manager as a call of \<open>fetch_all_threats\<close> with
  limit 1 and without enrichment leaves it at time 0 in that world: its cache holds the
  first fallback item of CERT-IN, of the FBI and of BleepingComputer.
\<close>

definition sample_world :: world where
  "sample_world =
     \<lparr>cisa_feed = Inl (Exception ''connection refused''),
      cisa_page = Inl (Exception ''connection refused''),
      bleeping_feed = Inl (Exception ''connection refused''),
      utcnow_iso = ''2024-05-01T12:00:00''\<rparr>"

definition sample_processor :: processor where
  "sample_processor = \<lparr>client = None, set_order = remdups\<rparr>"

definition sample_manager :: manager where
  "sample_manager =
     fst (snd (fetch_all_threats (new_manager sample_world sample_processor) 1 False 0 0))"

definition sample_items :: "threat list" where
  "sample_items =
     [hd (CERTIN_get_fallback_data sample_world), hd (FBI_get_fallback_data sample_world),
      hd (Bleeping_get_fallback_data sample_world)]"

text \<open>Three items, the middle one without a date; one scraper returns them in this order.\<close>

definition dated :: "string option \<Rightarrow> threat" where
  "dated d =
     \<lparr>feed_id = None, source = None, source_url = None, title = None, severity = None,
      published_date = d, fetched_date = None, full_content = None, tags = None,
      quick_summary = None, iocs = None, affected_systems = None, recommendations = None\<rparr>"

definition dated_manager :: manager where
  "dated_manager =
     \<lparr>scrapers =
        [(''CISA'', \<lambda>limit. Inr [dated (Some ''2024-01-02''), dated None,
                                   dated (Some ''2024-03-01'')])],
      ai_processor = (\<lambda>t. Inr t),
      threat_cache = [],
      last_fetch_time = None,
      cache_duration = 3600000000\<rparr>"

text \<open>
  A threat with a given content, a processor without an API key that iterates a set in
  the opposite order, and a processor whose client answers every request with the same
  three lines.
\<close>

definition with_content :: "string \<Rightarrow> threat" where
  "with_content c = (dated None)\<lparr>title := Some ''Advisory'', full_content := Some c\<rparr>"

definition reversing_processor :: processor where
  "reversing_processor = \<lparr>client = None, set_order = rev \<circ> remdups\<rparr>"

definition sample_answer :: string where
  "sample_answer =
     '' 1. evil.example.com'' @ [CHR 0x0A] @ [CHR 0x0A]
     @ ''- CVE-2021-44228 '' @ [CHR 0x0A] @ ''note'' @ [CHR 0x0A]"

definition answering_processor :: processor where
  "answering_processor =
     \<lparr>client = Some (\<lambda>request t. Inr sample_answer), set_order = remdups\<rparr>"

section \<open>Descending order of dates\<close>

text \<open>Descending order of the sort key, as a predicate on lists of threats.\<close>

definition date_descending :: "threat list \<Rightarrow> bool" where
  "date_descending ts = sorted_wrt (\<lambda>a b. published_key b \<le> published_key a) ts"

section \<open>The search rule in the words of the specification\<close>

text \<open>
  The query, lower-cased, is a substring of the lower-cased title, of the lower-cased
  content or of the lower-cased tags joined by spaces; a severity filter that is given
  equals the item's severity when both are lower-cased. \<open>sublist\<close> is the library's
  notion of a contiguous sublist.
\<close>

definition text_matches :: "string \<Rightarrow> threat \<Rightarrow> bool" where
  "text_matches query t =
     (sublist (lower query) (lower (get (title t) ''''))
      \<or> sublist (lower query) (lower (get (full_content t) ''''))
      \<or> sublist (lower query) (lower (join_space (get (tags t) []))))"

definition severity_matches :: "string option \<Rightarrow> threat \<Rightarrow> bool" where
  "severity_matches sev t =
     (case sev of None \<Rightarrow> True | Some s \<Rightarrow> lower (get (severity t) '''') = lower s)"

definition claimed_search :: "string \<Rightarrow> string option \<Rightarrow> threat list \<Rightarrow> threat list" where
  "claimed_search query sev cache =
     filter (\<lambda>t. text_matches query t \<and> severity_matches sev t) cache"

definition threats_of_severity :: "string \<Rightarrow> threat list \<Rightarrow> threat list" where
  "threats_of_severity s cache = filter (severity_matches (Some s)) cache"

section \<open>The fields a scraper writes\<close>

text \<open>The nine keys of a raw threat, as a tuple; the four enrichment keys are left out.\<close>

definition raw_fields ::
  "threat \<Rightarrow> string option \<times> string option \<times> string option \<times> string option \<times> string option
     \<times> string option \<times> string option \<times> string option \<times> string list option"
where
  "raw_fields t =
     (feed_id t, source t, source_url t, title t, severity t, published_date t,
      fetched_date t, full_content t, tags t)"

section \<open>What the registered scrapers return\<close>

text \<open>
  The output of one scraper at a limit (nothing when it raises), the outputs of all
  registered scrapers in registry order, and an item as enrichment leaves it (the item
  itself when enrichment raises).
\<close>

definition scraper_output :: "int \<Rightarrow> scraper \<Rightarrow> threat list" where
  "scraper_output limit scraper = (case scraper limit of Inl e \<Rightarrow> [] | Inr threats \<Rightarrow> threats)"

definition registry_output :: "int \<Rightarrow> (string \<times> scraper) list \<Rightarrow> threat list" where
  "registry_output limit reg =
     concat (map (\<lambda>(source_name, scraper). scraper_output limit scraper) reg)"

definition enriched_or_kept :: "(threat \<Rightarrow> error + threat) \<Rightarrow> threat \<Rightarrow> threat" where
  "enriched_or_kept ai t = (case ai t of Inl e \<Rightarrow> t | Inr enriched \<Rightarrow> enriched)"

section \<open>Facts about the model\<close>

lemma length_enrich_all: "length (enrich_all ai ts) = length ts"
  by (induction ts) auto

lemma enrich_all_map:
  "enrich_all ai ts = map (\<lambda>t. case ai t of Inl e \<Rightarrow> t | Inr enriched \<Rightarrow> enriched) ts"
  by (induction ts) (auto split: sum.splits)

lemma snd_fetch_sources:
  "snd (fetch_sources ai l u reg) = map (\<lambda>(n, s). (n, l)) reg"
  by (induction reg) (auto split: prod.splits)

lemma length_fetch_sources:
  "length (fst (fetch_sources ai l True reg)) = length (fst (fetch_sources ai' l False reg))"
  by (induction reg) (auto split: prod.splits sum.splits simp: length_enrich_all)

lemma sort_published_desc_Nil: "sort_published_desc [] = []"
  by (simp add: sort_published_desc_def)

lemma mset_sort_published_desc: "mset (sort_published_desc xs) = mset xs"
  by (simp add: sort_published_desc_def)

lemma length_sort_published_desc: "length (sort_published_desc xs) = length xs"
  by (simp add: sort_published_desc_def)

lemma sorted_sort_published_desc:
  "sorted_wrt (\<lambda>a b. published_key b \<le> published_key a) (sort_published_desc xs)"
proof -
  have "sorted (map published_key (sort_key published_key (rev xs)))"
    by (rule sorted_sort_key)
  then have "sorted_wrt (\<lambda>a b. published_key a \<le> published_key b) (sort_key published_key (rev xs))"
    by (simp add: sorted_map)
  then show ?thesis
    by (simp add: sort_published_desc_def sorted_wrt_rev)
qed

lemma search_loop_filter:
  "search_loop q sev ts =
     filter (\<lambda>t. (py_in q (lower (get (title t) '''')) \<or> py_in q (lower (get (full_content t) ''''))
                   \<or> py_in q (lower (join_space (get (tags t) []))))
                 \<and> (case sev of None \<Rightarrow> True
                     | Some s \<Rightarrow> s = [] \<or> lower (get (severity t) '''') = lower s)) ts"
  by (induction ts) (auto simp: Let_def split: option.splits)

lemma py_in_Nil: "py_in [] h"
  by (cases h) auto

lemma py_in_sublist: "py_in n h = sublist n h"
  by (induction h) (auto simp: sublist_Cons_right)

lemma length_slice_to: "0 \<le> n \<Longrightarrow> length (slice_to n xs) \<le> nat n"
  by (simp add: slice_to_def)

lemma fetch_all_threats_cached:
  "is_cache_valid m t \<Longrightarrow> fetch_all_threats m l u t t' = (threat_cache m, m, [])"
  by (simp add: fetch_all_threats_def)

lemma fetch_all_threats_refresh:
  "\<not> is_cache_valid m t \<Longrightarrow>
   fetch_all_threats m l u t t' =
     (let r = sort_published_desc (fst (fetch_sources (ai_processor m) l u (scrapers m)))
      in (r, m\<lparr>threat_cache := r, last_fetch_time := Some t'\<rparr>, map (\<lambda>(n, s). (n, l)) (scrapers m)))"
  using snd_fetch_sources[of "ai_processor m" l u "scrapers m"]
  by (auto simp: fetch_all_threats_def Let_def split: prod.splits)


lemma scrapers_fetch_all_threats:
  "scrapers (fst (snd (fetch_all_threats m l u t t'))) = scrapers m"
  by (simp add: fetch_all_threats_def Let_def split: prod.splits)

lemma date_descending_sort: "date_descending (sort_published_desc xs)"
  by (simp add: date_descending_def sorted_sort_published_desc)

lemma date_descending_missing_last:
  assumes "date_descending r" "i < j" "j < length r" "published_date (r ! i) = None"
  shows "published_key (r ! j) = ''''"
proof -
  have "published_key (r ! j) \<le> published_key (r ! i)"
    using assms(1-3) by (simp add: date_descending_def sorted_wrt_iff_nth_less)
  moreover have "published_key (r ! i) = ''''"
    using assms(4) by (simp add: published_key_def get_def)
  ultimately show ?thesis by simp
qed

lemma threat_cache_fetch_all_threats:
  "\<not> is_cache_valid m t \<Longrightarrow>
     threat_cache (fst (snd (fetch_all_threats m l u t t'))) = fst (fetch_all_threats m l u t t')"
  by (simp add: fetch_all_threats_refresh Let_def)

lemma date_descending_fetch_all_threats:
  "date_descending (threat_cache m) \<Longrightarrow>
     date_descending (threat_cache (fst (snd (fetch_all_threats m l u t t'))))"
  by (cases "is_cache_valid m t")
     (simp_all add: fetch_all_threats_cached fetch_all_threats_refresh Let_def date_descending_sort)

lemma date_descending_force_refresh:
  "date_descending (threat_cache (fst (snd (force_refresh m u t t'))))"
proof -
  have "\<not> is_cache_valid (m\<lparr>threat_cache := [], last_fetch_time := None\<rparr>) t"
    by (simp add: is_cache_valid_def)
  then show ?thesis
    unfolding force_refresh_def
    by (simp add: fetch_all_threats_refresh Let_def date_descending_sort)
qed

lemma manager_search_threats:
  "fst (snd (search_threats m q sev t t')) =
     (if threat_cache m = [] then fst (snd (fetch_all_threats m 10 True t t')) else m)"
  by (simp add: search_threats_def Let_def split: prod.splits)

lemma manager_fetch_threats_by_source:
  "fst (snd (fetch_threats_by_source m src limit u)) = m"
  by (simp add: fetch_threats_by_source_def split: option.splits sum.splits)

lemmas eval_fallbacks =
  CISA_get_fallback_data_def CERTIN_get_fallback_data_def FBI_get_fallback_data_def
  Bleeping_get_fallback_data_def

lemma sample_manager_eq:
  "sample_manager =
     (new_manager sample_world sample_processor)
       \<lparr>threat_cache := sample_items, last_fetch_time := Some 0\<rparr>"
proof -
  have nv: "\<not> is_cache_valid (new_manager sample_world sample_processor) 0"
    by (simp add: is_cache_valid_def new_manager_def)
  have c: "fst (fetch_sources (enrich_threat sample_processor) 1 False
                  (scrapers (new_manager sample_world sample_processor))) = sample_items"
    by (simp add: new_manager_def sample_world_def sample_items_def
      CISA_fetch_threats_def CISA_fetch_threats_try_def CISA_fetch_from_rss_def
      CISA_fetch_from_web_def CERTIN_fetch_threats_def CERTIN_fetch_threats_try_def
      FBI_fetch_threats_def FBI_fetch_threats_try_def Bleeping_fetch_threats_def
      Bleeping_fetch_threats_try_def Bleeping_fetch_from_rss_def slice_to_def eval_fallbacks)
  have s: "sort_published_desc sample_items = sample_items"
    by (simp add: sort_published_desc_def published_key_def get_def sample_items_def
        eval_fallbacks)
  have a: "ai_processor (new_manager sample_world sample_processor)
             = enrich_threat sample_processor"
    by (simp add: new_manager_def)
  show ?thesis
    unfolding sample_manager_def
    by (simp add: fetch_all_threats_refresh[OF nv] Let_def a c s)
qed

lemma sample_first_call:
  "fetch_all_threats (new_manager sample_world sample_processor) 1 False 0 0
     = (sample_items, sample_manager,
        [(''CISA'', 1), (''CERT-IN'', 1), (''FBI'', 1), (''BleepingComputer'', 1)])"
proof -
  have nv: "\<not> is_cache_valid (new_manager sample_world sample_processor) 0"
    by (simp add: is_cache_valid_def new_manager_def)
  have m: "fst (snd (fetch_all_threats (new_manager sample_world sample_processor) 1 False 0 0))
             = sample_manager"
    by (simp add: sample_manager_def)
  have r: "fst (fetch_all_threats (new_manager sample_world sample_processor) 1 False 0 0)
             = sample_items"
    using threat_cache_fetch_all_threats[OF nv, of 1 False 0]
    by (simp add: m sample_manager_eq)
  have c: "snd (snd (fetch_all_threats (new_manager sample_world sample_processor) 1 False 0 0))
             = [(''CISA'', 1), (''CERT-IN'', 1), (''FBI'', 1), (''BleepingComputer'', 1)]"
    unfolding fetch_all_threats_refresh[OF nv] Let_def by (simp add: new_manager_def)
  show ?thesis
    using m r c by (metis prod.collapse)
qed

lemma sample_manager_scrapers:
  "scrapers sample_manager = scrapers (new_manager sample_world sample_processor)"
  "ai_processor sample_manager = ai_processor (new_manager sample_world sample_processor)"
  "cache_duration sample_manager = 3600000000"
  "last_fetch_time sample_manager = Some 0"
  by (simp_all add: sample_manager_eq new_manager_def)

lemma sample_cache: "threat_cache sample_manager = sample_items"
  by (simp add: sample_manager_eq)

lemma sample_manager_cache: "threat_cache sample_manager \<noteq> []"
  by (simp add: sample_cache sample_items_def)

lemma sample_manager_valid:
  "is_cache_valid sample_manager 1000" "is_cache_valid sample_manager 2000"
  using sample_manager_cache by (simp_all add: is_cache_valid_def sample_manager_scrapers)

lemma sample_scrapers_limit_0:
  "fetch_sources (ai_processor sample_manager) 0 u (scrapers sample_manager)
     = ([], [(''CISA'', 0), (''CERT-IN'', 0), (''FBI'', 0), (''BleepingComputer'', 0)])"
  by (simp add: sample_manager_scrapers new_manager_def sample_world_def
      CISA_fetch_threats_def CISA_fetch_threats_try_def CISA_fetch_from_rss_def
      CISA_fetch_from_web_def CERTIN_fetch_threats_def CERTIN_fetch_threats_try_def
      FBI_fetch_threats_def FBI_fetch_threats_try_def Bleeping_fetch_threats_def
      Bleeping_fetch_threats_try_def Bleeping_fetch_from_rss_def slice_to_def)

lemma sample_manager_stale: "\<not> is_cache_valid sample_manager 3600000000"
  by (simp add: is_cache_valid_def sample_manager_scrapers)

lemma search_loop_claimed:
  "sev \<noteq> Some [] \<Longrightarrow> search_loop (lower query) sev ts = claimed_search query sev ts"
  by (cases sev)
     (simp_all add: search_loop_filter claimed_search_def text_matches_def severity_matches_def
        py_in_sublist)

lemma search_loop_empty_filter:
  "search_loop q (Some []) ts = search_loop q None ts"
  by (simp add: search_loop_filter)

lemma search_loop_empty_query:
  "search_loop [] sev ts =
     (case sev of None \<Rightarrow> ts
      | Some s \<Rightarrow> if s = [] then ts else threats_of_severity s ts)"
  by (cases sev)
     (simp_all add: search_loop_filter py_in_Nil threats_of_severity_def severity_matches_def
        cong: filter_cong)

lemma search_threats_populated:
  "threat_cache m \<noteq> [] \<Longrightarrow>
     search_threats m query sev t t' = (search_loop (lower query) sev (threat_cache m), m, [])"
  by (simp add: search_threats_def)

lemma search_threats_result:
  "fst (search_threats m query sev t t') =
     search_loop (lower query) sev (threat_cache (fst (snd (search_threats m query sev t t'))))"
  by (simp add: search_threats_def Let_def split: prod.splits)

lemma lower_Nil: "lower [] = []"
  by (simp add: lower_def)

lemma lower_Cons: "lower (c # cs) = lower_char c # lower cs"
  by (simp add: lower_def)

lemmas eval_lower = lower_Nil lower_Cons lower_char_def is_upper_def

lemma sample_search_ransomware:
  "search_loop ''ransomware'' None sample_items = [sample_items ! 1]"
  "search_loop ''ransomware'' (Some '''') sample_items = [sample_items ! 1]"
  "search_loop ''ransomware'' (Some ''low'') sample_items = []"
  "search_loop ''ransomware'' (Some ''CRITICAL'') sample_items = [sample_items ! 1]"
  by (simp_all add: sample_items_def eval_fallbacks get_def eval_lower)

lemma sample_claimed_ransomware:
  "claimed_search ''Ransomware'' (Some '''') sample_items = []"
  by (simp add: claimed_search_def severity_matches_def sample_items_def eval_fallbacks get_def
      eval_lower)

lemma sample_of_severity:
  "threats_of_severity ''HIGH'' sample_items = [sample_items ! 0]"
  "threats_of_severity '''' sample_items = []"
  by (simp_all add: threats_of_severity_def severity_matches_def sample_items_def eval_fallbacks
      get_def eval_lower)

lemma enrich_threat_fields:
  "\<exists>s i a r. enrich_threat p t =
     Inr (t\<lparr>quick_summary := Some s, iocs := Some i, affected_systems := Some a,
             recommendations := Some r\<rparr>)"
  unfolding enrich_threat_def Let_def by (intro exI) (rule refl)

lemma raw_fields_enrich_threat:
  "enrich_threat p t = Inr e \<Longrightarrow> raw_fields e = raw_fields t"
  by (auto simp: enrich_threat_def Let_def raw_fields_def)

lemma published_key_raw_fields:
  "published_key t = get (fst (snd (snd (snd (snd (snd (raw_fields t))))))) ''''"
  by (simp add: published_key_def raw_fields_def)

lemma map_insort_key:
  "map g (insort_key (\<lambda>a. k (g a)) x xs) = insort_key k (g x) (map g xs)"
  by (induction xs) auto

lemma map_sort_key: "map g (sort_key (\<lambda>a. k (g a)) xs) = sort_key k (map g xs)"
  by (induction xs) (auto simp: map_insort_key)

lemma raw_fields_sort:
  "map raw_fields (sort_published_desc xs)
     = rev (sort_key (\<lambda>r. get (fst (snd (snd (snd (snd (snd r)))))) '''')
              (rev (map raw_fields xs)))"
proof -
  have pk: "published_key = (\<lambda>a. get (fst (snd (snd (snd (snd (snd (raw_fields a))))))) '''')"
    by (rule ext) (rule published_key_raw_fields)
  show ?thesis
    unfolding sort_published_desc_def pk
    by (simp only: rev_map[symmetric]
        map_sort_key[of raw_fields "\<lambda>r. get (fst (snd (snd (snd (snd (snd r)))))) ''''" "rev xs"])
qed

lemma raw_fields_enrich_all:
  "(\<And>t e. ai t = Inr e \<Longrightarrow> raw_fields e = raw_fields t) \<Longrightarrow>
     map raw_fields (enrich_all ai ts) = map raw_fields ts"
  by (induction ts) (auto split: sum.splits)

lemma raw_fields_fetch_sources:
  "(\<And>t e. ai t = Inr e \<Longrightarrow> raw_fields e = raw_fields t) \<Longrightarrow>
     map raw_fields (fst (fetch_sources ai l True reg))
       = map raw_fields (fst (fetch_sources ai l False reg))"
  by (induction reg) (auto split: prod.splits sum.splits simp: raw_fields_enrich_all)

lemma raw_fields_fetch_all_threats:
  assumes "\<And>t e. ai_processor m t = Inr e \<Longrightarrow> raw_fields e = raw_fields t"
  shows "map raw_fields (fst (fetch_all_threats m l True t t'))
           = map raw_fields (fst (fetch_all_threats m l False t t'))"
proof (cases "is_cache_valid m t")
  case True
  then show ?thesis by (simp add: fetch_all_threats_cached)
next
  case False
  then show ?thesis
    by (simp add: fetch_all_threats_refresh Let_def raw_fields_sort
        raw_fields_fetch_sources[OF assms])
qed

lemma length_fetch_all_threats:
  "length (fst (fetch_all_threats m l True t t')) = length (fst (fetch_all_threats m l False t t'))"
proof (cases "is_cache_valid m t")
  case True
  then show ?thesis by (simp add: fetch_all_threats_cached)
next
  case False
  then show ?thesis
    by (simp add: fetch_all_threats_refresh Let_def length_sort_published_desc
        length_fetch_sources[of "ai_processor m" l "scrapers m" "ai_processor m"])
qed

lemma slice_to_numeral: "slice_to (numeral n) xs = take (numeral n) xs"
  by (simp add: slice_to_def)

lemma length_fallback_iocs: "length (fallback_iocs p t) \<le> 5"
  by (simp add: fallback_iocs_def Let_def slice_to_numeral)

lemma length_fallback_affected_systems: "length (fallback_affected_systems t) \<le> 5"
  by (simp add: fallback_affected_systems_def Let_def slice_to_numeral)

lemma length_fallback_recommendations: "length (fallback_recommendations t) \<le> 5"
  by (simp add: fallback_recommendations_def Let_def slice_to_numeral)

lemma length_extract_iocs: "length (extract_iocs p t) \<le> 10"
  using length_fallback_iocs[of p t]
  by (auto simp: extract_iocs_def Let_def slice_to_numeral split: option.splits sum.splits)

lemma length_identify_affected_systems: "length (identify_affected_systems p t) \<le> 5"
  using length_fallback_affected_systems[of t]
  by (auto simp: identify_affected_systems_def Let_def slice_to_numeral
      split: option.splits sum.splits)

lemma length_generate_recommendations: "length (generate_recommendations p t) \<le> 5"
  using length_fallback_recommendations[of t]
  by (auto simp: generate_recommendations_def Let_def slice_to_numeral
      split: option.splits sum.splits)

lemma fallback_iocs_distinct:
  assumes "\<forall>xs. distinct (set_order p xs) \<and> set (set_order p xs) = set xs"
  shows "distinct (fallback_iocs p t)
         \<and> set (fallback_iocs p t)
             \<subseteq> set (findall_cve (get (full_content t) '''' @ '' '' @ get (title t) ''''))"
proof -
  let ?c = "findall_cve (get (full_content t) '''' @ '' '' @ get (title t) '''')"
  have f: "fallback_iocs p t = take 5 (set_order p ?c)"
    by (simp add: fallback_iocs_def Let_def slice_to_numeral)
  have "distinct (set_order p ?c)" and s: "set (set_order p ?c) = set ?c"
    using assms by blast+
  then have "distinct (take 5 (set_order p ?c))"
    by simp
  moreover have "set (take 5 (set_order p ?c)) \<subseteq> set ?c"
    using set_take_subset[of 5 "set_order p ?c"] s by simp
  ultimately show ?thesis
    by (simp add: f)
qed

lemmas eval_findall =
  findall_cve_def cve_match_def is_decimal_def eval_lower

text \<open>The string functions on the inputs and answers of a Python session.\<close>

lemma findall_cve_python:
  "findall_cve
     ''cve-2024-0001, CVE-2024-00022222x Advisory cVe-1999-12345678 CVE-2024-123 CVE-20245-1234''
   = [''cve-2024-0001'', ''CVE-2024-0002222'', ''cVe-1999-1234567'']"
  by (simp add: eval_findall)

lemma split_newline_python:
  "split_newline '''' = ['''']"
  "split_newline (''a'' @ [CHR 0x0A]) = [''a'', '''']"
  "split_newline ([CHR 0x0A] @ ''ab'' @ [CHR 0x0A, CHR 0x0A] @ ''c'') = ['''', ''ab'', '''', ''c'']"
  by simp_all

lemma slice_to_python:
  "slice_to (- 1) [1, 2, 3, 4 :: nat] = [1, 2, 3]"
  "slice_to (- 5) [1, 2, 3, 4 :: nat] = []"
  "slice_to 0 [1, 2, 3, 4 :: nat] = []"
  "slice_to 9 [1, 2, 3, 4 :: nat] = [1, 2, 3, 4]"
  by (simp_all add: slice_to_def)

lemma last_segment_python:
  "last_segment ''a/b/c'' = ''c''" "last_segment ''abc'' = ''abc''" "last_segment ''a/'' = ''''"
  by (simp_all add: last_segment_def)

lemma py_in_python: "\<not> py_in ''x'' ''''" "py_in '''' ''''" "py_in ''bc'' ''abcd''"
  by simp_all

lemma sample_findall_twice:
  "findall_cve ''See CVE-2024-1234 and again CVE-2024-1234. Advisory''
     = [''CVE-2024-1234'', ''CVE-2024-1234'']"
  by (simp add: eval_findall)

lemma sample_findall_two:
  "findall_cve ''cve-2024-0001, CVE-2024-00022222x Advisory''
     = [''cve-2024-0001'', ''CVE-2024-0002222'']"
  by (simp add: eval_findall)

lemmas eval_strip = strip_def is_space_def

lemma sample_answer_strip:
  "strip sample_answer = ''1. evil.example.com'' @ [CHR 0x0A] @ [CHR 0x0A]
              @ ''- CVE-2021-44228 '' @ [CHR 0x0A] @ ''note''"
  by (simp add: sample_answer_def eval_strip)

lemma sample_answer_split:
  "split_newline (strip sample_answer)
     = [''1. evil.example.com'', '''', ''- CVE-2021-44228 '', ''note'']"
  unfolding sample_answer_strip by simp

lemma sample_answer_lines:
  "stripped_lines (strip sample_answer)
     = [''1. evil.example.com'', ''- CVE-2021-44228'', ''note'']"
  unfolding stripped_lines_def sample_answer_split by (simp add: eval_strip)

lemma sample_answer_not_none: "lower (strip sample_answer) \<noteq> ''none''"
  unfolding sample_answer_strip by (simp add: eval_lower)

lemma sample_answer_recommendations:
  "parse_recommendations (split_newline (strip sample_answer))
     = [''evil.example.com'', ''CVE-2021-44228'']"
  unfolding sample_answer_split by (simp add: eval_strip isdigit_def is_decimal_def)

lemma sample_collected:
  "fst (fetch_sources ai 10 False (scrapers (new_manager sample_world sample_processor)))
     = CERTIN_get_fallback_data sample_world @ FBI_get_fallback_data sample_world
       @ Bleeping_get_fallback_data sample_world"
  by (simp add: new_manager_def sample_world_def
      CISA_fetch_threats_def CISA_fetch_threats_try_def CISA_fetch_from_rss_def
      CISA_fetch_from_web_def CERTIN_fetch_threats_def CERTIN_fetch_threats_try_def
      FBI_fetch_threats_def FBI_fetch_threats_try_def Bleeping_fetch_threats_def
      Bleeping_fetch_threats_try_def Bleeping_fetch_from_rss_def slice_to_def
      CERTIN_get_fallback_data_def FBI_get_fallback_data_def Bleeping_get_fallback_data_def)

lemma sample_collected_length:
  "length (fst (fetch_all_threats (new_manager sample_world sample_processor) 10 False 0 1)) = 13"
proof -
  have "\<not> is_cache_valid (new_manager sample_world sample_processor) 0"
    by (simp add: is_cache_valid_def new_manager_def)
  then show ?thesis
    by (simp add: fetch_all_threats_refresh Let_def length_sort_published_desc sample_collected
        CERTIN_get_fallback_data_def FBI_get_fallback_data_def Bleeping_get_fallback_data_def)
qed

lemma FBI_fetch_threats_eq:
  "FBI_fetch_threats w limit = Inr (slice_to limit (FBI_get_fallback_data w))"
  by (simp add: FBI_fetch_threats_def FBI_fetch_threats_try_def)

lemma CERTIN_fetch_threats_eq:
  "CERTIN_fetch_threats w limit = Inr (slice_to limit (CERTIN_get_fallback_data w))"
  by (simp add: CERTIN_fetch_threats_def CERTIN_fetch_threats_try_def)

lemma Bleeping_fetch_threats_eq:
  "Bleeping_fetch_threats w limit =
     Inr (if Bleeping_fetch_from_rss w limit = []
          then slice_to limit (Bleeping_get_fallback_data w)
          else Bleeping_fetch_from_rss w limit)"
  by (simp add: Bleeping_fetch_threats_def Bleeping_fetch_threats_try_def Let_def)

lemma CISA_fetch_threats_eq:
  "CISA_fetch_threats w limit = Inr (CISA_fetch_from_rss w limit)"
  by (cases "cisa_page w")
     (simp_all add: CISA_fetch_threats_def CISA_fetch_threats_try_def CISA_fetch_from_web_def
        Let_def)

lemma enrich_all_enriched_or_kept: "enrich_all ai ts = map (enriched_or_kept ai) ts"
  by (induction ts) (auto simp: enriched_or_kept_def split: sum.splits)

lemma fetch_sources_raw: "fst (fetch_sources ai l False reg) = registry_output l reg"
  by (induction reg)
     (auto simp: registry_output_def scraper_output_def split: prod.splits sum.splits)

lemma fetch_sources_enriched:
  "fst (fetch_sources ai l True reg) = map (enriched_or_kept ai) (registry_output l reg)"
  by (induction reg)
     (auto simp: registry_output_def scraper_output_def enrich_all_enriched_or_kept
        split: prod.splits sum.splits)

lemma fetch_sources_output:
  "fst (fetch_sources ai l u reg)
     = (if u then map (enriched_or_kept ai) (registry_output l reg) else registry_output l reg)"
  by (cases u) (simp_all add: fetch_sources_raw fetch_sources_enriched)

lemma fetch_all_threats_output:
  "fst (fetch_all_threats m l u t t')
     = (if is_cache_valid m t then threat_cache m
        else sort_published_desc
               (if u then map (enriched_or_kept (ai_processor m)) (registry_output l (scrapers m))
                else registry_output l (scrapers m)))"
  by (simp add: fetch_all_threats_cached fetch_all_threats_refresh Let_def fetch_sources_output)

lemma enriched_or_kept_raising: "enriched_or_kept (\<lambda>t. Inl e) = (\<lambda>t. t)"
  by (rule ext) (simp add: enriched_or_kept_def)

lemma fetch_sources_raising:
  "fetch_sources (\<lambda>t. Inl e) l True reg = fetch_sources (\<lambda>t. Inl e) l False reg"
proof -
  have "fst (fetch_sources (\<lambda>t. Inl e) l True reg) = fst (fetch_sources (\<lambda>t. Inl e) l False reg)"
    by (simp add: fetch_sources_raw fetch_sources_enriched enriched_or_kept_raising)
  moreover have "snd (fetch_sources (\<lambda>t. Inl e) l True reg)
                   = snd (fetch_sources (\<lambda>t. Inl e) l False reg)"
    by (simp add: snd_fetch_sources)
  ultimately show ?thesis
    by (rule prod_eqI)
qed

lemma fetch_all_threats_raising:
  "fetch_all_threats (m\<lparr>ai_processor := \<lambda>t. Inl e\<rparr>) l True t t'
     = fetch_all_threats (m\<lparr>ai_processor := \<lambda>t. Inl e\<rparr>) l False t t'"
  by (simp add: fetch_all_threats_def fetch_sources_raising)

lemma sorted_same_key: "\<forall>x \<in> set xs. f x = k \<Longrightarrow> sorted (map f xs)"
  by (induction xs) auto

lemma sort_published_desc_same_key:
  assumes "\<forall>x \<in> set xs. published_key x = k"
  shows "sort_published_desc xs = xs"
proof -
  have "sorted (map published_key (rev xs))"
    using assms by (intro sorted_same_key[of _ _ k]) simp
  then have "sort_key published_key (rev xs) = rev xs"
    by (rule sort_key_id_if_sorted)
  then show ?thesis
    by (simp add: sort_published_desc_def)
qed

lemma sample_registry_output:
  "registry_output 10 (scrapers sample_manager)
     = CERTIN_get_fallback_data sample_world @ FBI_get_fallback_data sample_world
       @ Bleeping_get_fallback_data sample_world"
  "registry_output 1 (scrapers sample_manager) = sample_items"
  by (simp_all add: registry_output_def scraper_output_def sample_manager_scrapers
      new_manager_def sample_world_def sample_items_def
      CISA_fetch_threats_def CISA_fetch_threats_try_def CISA_fetch_from_rss_def
      CISA_fetch_from_web_def CERTIN_fetch_threats_def CERTIN_fetch_threats_try_def
      FBI_fetch_threats_def FBI_fetch_threats_try_def Bleeping_fetch_threats_def
      Bleeping_fetch_threats_try_def Bleeping_fetch_from_rss_def slice_to_def eval_fallbacks)

lemma sample_fallbacks_sorted:
  "sort_published_desc
     (CERTIN_get_fallback_data sample_world @ FBI_get_fallback_data sample_world
      @ Bleeping_get_fallback_data sample_world)
   = CERTIN_get_fallback_data sample_world @ FBI_get_fallback_data sample_world
     @ Bleeping_get_fallback_data sample_world"
  "sort_published_desc sample_items = sample_items"
  by (rule sort_published_desc_same_key[of _ "''2024-05-01T12:00:00''"],
      simp add: eval_fallbacks sample_items_def published_key_def get_def sample_world_def)+

lemma sample_systems:
  "filter (\<lambda>system. sublist (lower system)
             (lower ''Advisory Edge, Firefox, Android, iOS, macOS, Linux and Windows are affected''))
     common_systems
   = [''Windows'', ''Linux'', ''macOS'', ''iOS'', ''Android'', ''Firefox'', ''Edge'']"
  by (simp add: py_in_sublist[symmetric] common_systems_def eval_lower)

section \<open>The cache policy of \<open>fetch_all_threats\<close>\<close>

text \<open>
  C5. A call of \<open>fetch_all_threats\<close> on a cache that is populated and younger than
  \<open>cache_duration\<close> returns the cached list, calls no scraper and returns the manager as
  it was. Hence, whatever the first call did, a second call made while the cache it left
  is still valid returns the same list as the first, again without calling a scraper.
\<close>

theorem fetch_all_threats_cache_hit:
  "(is_cache_valid m utcnow \<longrightarrow>
      fetch_all_threats m l u utcnow utcnow' = (threat_cache m, m, []))
   \<and> (fetch_all_threats m l u utcnow utcnow' = (first, m1, c1) \<and> is_cache_valid m1 later \<longrightarrow>
      fetch_all_threats m1 l2 u2 later later' = (first, m1, []))"
proof (intro conjI impI)
  assume "is_cache_valid m utcnow"
  then show "fetch_all_threats m l u utcnow utcnow' = (threat_cache m, m, [])"
    by (rule fetch_all_threats_cached)
next
  assume a: "fetch_all_threats m l u utcnow utcnow' = (first, m1, c1) \<and> is_cache_valid m1 later"
  have "threat_cache m1 = first"
  proof (cases "is_cache_valid m utcnow")
    case True
    with a show ?thesis by (auto simp: fetch_all_threats_cached)
  next
    case False
    with a show ?thesis by (auto simp: fetch_all_threats_refresh Let_def)
  qed
  with a show "fetch_all_threats m1 l2 u2 later later' = (first, m1, [])"
    by (simp add: fetch_all_threats_cached)
qed

theorem fetch_all_threats_cache_hit_witness:
  "fetch_all_threats (new_manager sample_world sample_processor) 1 False 0 0
     = (sample_items, sample_manager,
        [(''CISA'', 1), (''CERT-IN'', 1), (''FBI'', 1), (''BleepingComputer'', 1)])
   \<and> is_cache_valid sample_manager 1000
   \<and> fetch_all_threats sample_manager 10 True 1000 1001 = (sample_items, sample_manager, [])
   \<and> is_cache_valid sample_manager 2000
   \<and> fetch_all_threats sample_manager 5 False 2000 2001
       = (threat_cache sample_manager, sample_manager, [])"
proof -
  have v1: "is_cache_valid sample_manager 1000"
    by (rule sample_manager_valid)
  have v2: "is_cache_valid sample_manager 2000"
    by (rule sample_manager_valid)
  have first: "fetch_all_threats (new_manager sample_world sample_processor) 1 False 0 0
     = (sample_items, sample_manager,
        [(''CISA'', 1), (''CERT-IN'', 1), (''FBI'', 1), (''BleepingComputer'', 1)])"
    by (rule sample_first_call)
  note after_refresh = fetch_all_threats_cache_hit
    [of "new_manager sample_world sample_processor" 0 1 False 0 sample_items sample_manager
        "[(''CISA'', 1), (''CERT-IN'', 1), (''FBI'', 1), (''BleepingComputer'', 1)]"
        1000 10 True 1001]
  note on_hit = fetch_all_threats_cache_hit
    [of sample_manager 2000 5 False 2001 "threat_cache sample_manager" sample_manager "[]"]
  from after_refresh first v1 have
    "fetch_all_threats sample_manager 10 True 1000 1001 = (sample_items, sample_manager, [])"
    by blast
  moreover from on_hit v2 have "fetch_all_threats sample_manager 5 False 2000 2001
       = (threat_cache sample_manager, sample_manager, [])"
    by blast
  ultimately show ?thesis using v1 v2 first by blast
qed

text \<open>
  C8. \<open>force_refresh\<close> does not depend on the cache or the timestamp it finds: on every
  manager it calls each registered scraper once, in registry order, with limit 10, and
  stores and returns the sorted result, stamped with the new time. In particular this
  holds for the manager that a \<open>fetch_all_threats\<close> call has just returned. The result is
  what the registered scrapers return at limit 10, concatenated in registry order, each
  item enriched (or kept, when enrichment raises) if AI is on, and then sorted: without
  AI it holds exactly the items the scrapers returned, and with or without AI as many.
\<close>

theorem force_refresh_fans_out:
  "force_refresh m use_ai utcnow utcnow' =
     (let r = sort_published_desc (fst (fetch_sources (ai_processor m) 10 use_ai (scrapers m)))
      in (r, m\<lparr>threat_cache := r, last_fetch_time := Some utcnow'\<rparr>,
          map (\<lambda>(n, s). (n, 10)) (scrapers m)))
   \<and> snd (snd (force_refresh (fst (snd (fetch_all_threats m l u t0 t0'))) use_ai utcnow utcnow'))
       = map (\<lambda>(n, s). (n, 10)) (scrapers m)
   \<and> fst (force_refresh m use_ai utcnow utcnow')
       = sort_published_desc
           (if use_ai
            then map (enriched_or_kept (ai_processor m)) (registry_output 10 (scrapers m))
            else registry_output 10 (scrapers m))
   \<and> mset (fst (force_refresh m False utcnow utcnow')) = mset (registry_output 10 (scrapers m))
   \<and> length (fst (force_refresh m use_ai utcnow utcnow'))
       = length (registry_output 10 (scrapers m))
   \<and> threat_cache (fst (snd (force_refresh m use_ai utcnow utcnow')))
       = fst (force_refresh m use_ai utcnow utcnow')
   \<and> last_fetch_time (fst (snd (force_refresh m use_ai utcnow utcnow'))) = Some utcnow'"
proof -
  have nv: "\<not> is_cache_valid (m'\<lparr>threat_cache := [], last_fetch_time := None\<rparr>) utcnow" for m'
    by (simp add: is_cache_valid_def)
  have eq: "force_refresh m' use_ai utcnow utcnow' =
     (let r = sort_published_desc (fst (fetch_sources (ai_processor m') 10 use_ai (scrapers m')))
      in (r, m'\<lparr>threat_cache := r, last_fetch_time := Some utcnow'\<rparr>,
          map (\<lambda>(n, s). (n, 10)) (scrapers m')))" for m'
    unfolding force_refresh_def
    by (simp add: fetch_all_threats_refresh[OF nv] Let_def)
  have out: "fst (force_refresh m b utcnow utcnow')
       = sort_published_desc
           (if b then map (enriched_or_kept (ai_processor m)) (registry_output 10 (scrapers m))
            else registry_output 10 (scrapers m))" for b
    unfolding force_refresh_def
    by (simp add: fetch_all_threats_output nv)
  have old: "force_refresh m use_ai utcnow utcnow' =
     (let r = sort_published_desc (fst (fetch_sources (ai_processor m) 10 use_ai (scrapers m)))
      in (r, m\<lparr>threat_cache := r, last_fetch_time := Some utcnow'\<rparr>,
          map (\<lambda>(n, s). (n, 10)) (scrapers m)))
   \<and> snd (snd (force_refresh (fst (snd (fetch_all_threats m l u t0 t0'))) use_ai utcnow utcnow'))
       = map (\<lambda>(n, s). (n, 10)) (scrapers m)"
    by (simp add: eq[of m] eq[of "fst (snd (fetch_all_threats m l u t0 t0'))"] Let_def
        scrapers_fetch_all_threats)
  have ms: "mset (fst (force_refresh m False utcnow utcnow')) = mset (registry_output 10 (scrapers m))"
    by (simp add: out mset_sort_published_desc)
  have len: "length (fst (force_refresh m use_ai utcnow utcnow'))
       = length (registry_output 10 (scrapers m))"
    by (simp add: out length_sort_published_desc)
  have cache: "threat_cache (fst (snd (force_refresh m use_ai utcnow utcnow')))
       = fst (force_refresh m use_ai utcnow utcnow')"
    by (simp add: eq[of m] Let_def)
  have stamp: "last_fetch_time (fst (snd (force_refresh m use_ai utcnow utcnow'))) = Some utcnow'"
    by (simp add: eq[of m] Let_def)
  show ?thesis
    using old out[of use_ai] ms len cache stamp by blast
qed

theorem force_refresh_fans_out_witness:
  "is_cache_valid sample_manager 1000
   \<and> snd (snd (force_refresh sample_manager True 1000 1001))
       = [(''CISA'', 10), (''CERT-IN'', 10), (''FBI'', 10), (''BleepingComputer'', 10)]
   \<and> fst (force_refresh sample_manager False 1000 1001)
       = CERTIN_get_fallback_data sample_world @ FBI_get_fallback_data sample_world
         @ Bleeping_get_fallback_data sample_world
   \<and> length (fst (force_refresh sample_manager True 1000 1001)) = 13
   \<and> last_fetch_time (fst (snd (force_refresh sample_manager False 1000 1001))) = Some 1001"
proof -
  note with_ai = force_refresh_fans_out[of sample_manager True 1000 1001]
  note without_ai = force_refresh_fans_out[of sample_manager False 1000 1001]
  from with_ai have "force_refresh sample_manager True 1000 1001 =
     (let r = sort_published_desc
                (fst (fetch_sources (ai_processor sample_manager) 10 True
                        (scrapers sample_manager)))
      in (r, sample_manager\<lparr>threat_cache := r, last_fetch_time := Some 1001\<rparr>,
          map (\<lambda>(n, s). (n, 10)) (scrapers sample_manager)))"
    by blast
  then have calls: "snd (snd (force_refresh sample_manager True 1000 1001))
       = [(''CISA'', 10), (''CERT-IN'', 10), (''FBI'', 10), (''BleepingComputer'', 10)]"
    by (simp add: Let_def sample_manager_scrapers new_manager_def)
  from without_ai have "fst (force_refresh sample_manager False 1000 1001)
       = sort_published_desc
           (if False
            then map (enriched_or_kept (ai_processor sample_manager))
                   (registry_output 10 (scrapers sample_manager))
            else registry_output 10 (scrapers sample_manager))"
    by blast
  then have items: "fst (force_refresh sample_manager False 1000 1001)
       = CERTIN_get_fallback_data sample_world @ FBI_get_fallback_data sample_world
         @ Bleeping_get_fallback_data sample_world"
    by (simp add: sample_registry_output sample_fallbacks_sorted)
  from with_ai have "length (fst (force_refresh sample_manager True 1000 1001))
       = length (registry_output 10 (scrapers sample_manager))"
    by blast
  then have count: "length (fst (force_refresh sample_manager True 1000 1001)) = 13"
    by (simp add: sample_registry_output eval_fallbacks)
  from without_ai have stamp:
    "last_fetch_time (fst (snd (force_refresh sample_manager False 1000 1001))) = Some 1001"
    by blast
  show ?thesis
    using sample_manager_valid(1) calls items count stamp by blast
qed

text \<open>
  C6. The list that a refresh of \<open>fetch_all_threats\<close> returns and stores is sorted by
  \<open>published_date\<close> in descending lexicographic order, with a missing date read as the
  empty string: it holds the collected items, each as often as collected, and every item
  after one without a date has the empty key. The cache of a new manager is sorted, and
  every operation of the manager leaves a sorted cache sorted.
\<close>

theorem fetch_all_threats_sorted:
  "(\<not> is_cache_valid m utcnow \<longrightarrow>
      (let r = fst (fetch_all_threats m l u utcnow utcnow')
       in date_descending r
          \<and> mset r = mset (fst (fetch_sources (ai_processor m) l u (scrapers m)))
          \<and> threat_cache (fst (snd (fetch_all_threats m l u utcnow utcnow'))) = r
          \<and> (\<forall>i j. i < j \<and> j < length r \<and> published_date (r ! i) = None
                 \<longrightarrow> published_key (r ! j) = '''')))
   \<and> date_descending (threat_cache (new_manager w p))
   \<and> (date_descending (threat_cache m) \<longrightarrow>
        date_descending (threat_cache (fst (snd (fetch_all_threats m l u utcnow utcnow'))))
        \<and> date_descending (threat_cache (fst (snd (force_refresh m u utcnow utcnow'))))
        \<and> date_descending (threat_cache (fst (snd (search_threats m q sev utcnow utcnow'))))
        \<and> date_descending (threat_cache (fst (snd (fetch_threats_by_source m src l u)))))"
proof (intro conjI impI)
  assume nv: "\<not> is_cache_valid m utcnow"
  let ?r = "fst (fetch_all_threats m l u utcnow utcnow')"
  have r: "?r = sort_published_desc (fst (fetch_sources (ai_processor m) l u (scrapers m)))"
    using nv by (simp add: fetch_all_threats_refresh Let_def)
  have d: "date_descending ?r"
    by (simp add: r date_descending_sort)
  have p: "mset ?r = mset (fst (fetch_sources (ai_processor m) l u (scrapers m)))"
    by (simp add: r mset_sort_published_desc)
  have c: "threat_cache (fst (snd (fetch_all_threats m l u utcnow utcnow'))) = ?r"
    using nv by (rule threat_cache_fetch_all_threats)
  have l: "\<forall>i j. i < j \<and> j < length ?r \<and> published_date (?r ! i) = None
                 \<longrightarrow> published_key (?r ! j) = ''''"
    using d by (blast intro: date_descending_missing_last)
  show "let r = ?r
       in date_descending r
          \<and> mset r = mset (fst (fetch_sources (ai_processor m) l u (scrapers m)))
          \<and> threat_cache (fst (snd (fetch_all_threats m l u utcnow utcnow'))) = r
          \<and> (\<forall>i j. i < j \<and> j < length r \<and> published_date (r ! i) = None
                 \<longrightarrow> published_key (r ! j) = '''')"
    unfolding Let_def using d p c l by blast
next
  show "date_descending (threat_cache (new_manager w p))"
    by (simp add: new_manager_def date_descending_def)
next
  assume "date_descending (threat_cache m)"
  then show "date_descending (threat_cache (fst (snd (fetch_all_threats m l u utcnow utcnow'))))"
    by (rule date_descending_fetch_all_threats)
next
  show "date_descending (threat_cache (fst (snd (force_refresh m u utcnow utcnow'))))"
    by (rule date_descending_force_refresh)
next
  assume "date_descending (threat_cache m)"
  then show "date_descending (threat_cache (fst (snd (search_threats m q sev utcnow utcnow'))))"
    by (auto simp: manager_search_threats intro: date_descending_fetch_all_threats)
next
  assume "date_descending (threat_cache m)"
  then show "date_descending (threat_cache (fst (snd (fetch_threats_by_source m src l u))))"
    by (simp add: manager_fetch_threats_by_source)
qed

theorem fetch_all_threats_sorted_witness:
  "\<not> is_cache_valid dated_manager 0
   \<and> fst (fetch_all_threats dated_manager 10 False 0 1)
       = [dated (Some ''2024-03-01''), dated (Some ''2024-01-02''), dated None]
   \<and> date_descending (fst (fetch_all_threats dated_manager 10 False 0 1))
   \<and> date_descending (threat_cache dated_manager)
   \<and> date_descending (threat_cache (fst (snd (fetch_all_threats dated_manager 10 False 0 1))))"
proof -
  have nv: "\<not> is_cache_valid dated_manager 0"
    by (simp add: is_cache_valid_def dated_manager_def)
  have e: "date_descending (threat_cache dated_manager)"
    by (simp add: dated_manager_def date_descending_def)
  have v: "fst (fetch_all_threats dated_manager 10 False 0 1)
         = [dated (Some ''2024-03-01''), dated (Some ''2024-01-02''), dated None]"
    by (simp add: fetch_all_threats_def dated_manager_def is_cache_valid_def Let_def
      sort_published_desc_def published_key_def get_def dated_def)
  note s = fetch_all_threats_sorted[of dated_manager 0 10 False 1 sample_world sample_processor
      "''x''" None "''CISA''"]
  from s nv have "date_descending (fst (fetch_all_threats dated_manager 10 False 0 1))"
    unfolding Let_def by blast
  moreover from s e have
    "date_descending (threat_cache (fst (snd (fetch_all_threats dated_manager 10 False 0 1))))"
    by blast
  ultimately show ?thesis using nv e v by blast
qed

text \<open>
  C1. When the refresh pass collects no item at all, \<open>fetch_all_threats\<close> returns the
  empty list and stores the empty list as the cache, stamped with the new time, whether
  or not a cache was there before; every registered scraper has been called.
\<close>

theorem fetch_all_threats_zero_items:
  "\<not> is_cache_valid m utcnow \<and> fst (fetch_sources (ai_processor m) l u (scrapers m)) = []
   \<longrightarrow> fetch_all_threats m l u utcnow utcnow'
         = ([], m\<lparr>threat_cache := [], last_fetch_time := Some utcnow'\<rparr>,
            map (\<lambda>(n, s). (n, l)) (scrapers m))"
  by (simp add: fetch_all_threats_refresh Let_def sort_published_desc_Nil)

theorem fetch_all_threats_zero_items_witness:
  "\<not> is_cache_valid sample_manager 3600000000
   \<and> fst (fetch_sources (ai_processor sample_manager) 0 True (scrapers sample_manager)) = []
   \<and> fetch_all_threats sample_manager 0 True 3600000000 3600000001
       = ([], sample_manager\<lparr>threat_cache := [], last_fetch_time := Some 3600000001\<rparr>,
          map (\<lambda>(n, s). (n, 0)) (scrapers sample_manager))"
  using fetch_all_threats_zero_items[of sample_manager 3600000000 0 True 3600000001]
    sample_manager_stale sample_scrapers_limit_0[of True]
  by simp

text \<open>
  A stale cache of three items and limit 0, for which each of the four scrapers returns
  the empty list: the call returns the empty list, not the three cached items, and the
  cache is empty afterwards.
\<close>

theorem fetch_all_threats_zero_items_counterexample:
  "threat_cache sample_manager \<noteq> []
   \<and> \<not> is_cache_valid sample_manager 3600000000
   \<and> fst (fetch_sources (ai_processor sample_manager) 0 True (scrapers sample_manager)) = []
   \<and> fst (fetch_all_threats sample_manager 0 True 3600000000 3600000001) = []
   \<and> threat_cache (fst (snd (fetch_all_threats sample_manager 0 True 3600000000 3600000001))) = []"
  using sample_manager_stale sample_manager_cache sample_scrapers_limit_0[of True]
  by (simp add: fetch_all_threats_refresh Let_def sort_published_desc_Nil)

section \<open>\<open>fetch_threats_by_source\<close>\<close>

text \<open>
  C2. For a source name that is not in the registry, \<open>fetch_threats_by_source\<close> returns
  the empty list as an ordinary result, calls no scraper and returns the manager as it
  was. For every source name its result does not depend on the cache or on the fetch
  timestamp, and the manager is returned unchanged.
\<close>

theorem fetch_threats_by_source_unknown:
  "(src \<notin> fst ` set (scrapers m) \<longrightarrow>
      fetch_threats_by_source m src limit use_ai = (Inr [], m, []))
   \<and> fst (fetch_threats_by_source (m\<lparr>threat_cache := c, last_fetch_time := stamp\<rparr>) src limit use_ai)
       = fst (fetch_threats_by_source m src limit use_ai)
   \<and> fst (snd (fetch_threats_by_source m src limit use_ai)) = m"
proof (intro conjI impI)
  assume "src \<notin> fst ` set (scrapers m)"
  then have "map_of (scrapers m) src = None"
    by (simp add: map_of_eq_None_iff)
  then show "fetch_threats_by_source m src limit use_ai = (Inr [], m, [])"
    by (simp add: fetch_threats_by_source_def)
next
  show "fst (fetch_threats_by_source (m\<lparr>threat_cache := c, last_fetch_time := stamp\<rparr>) src limit use_ai)
       = fst (fetch_threats_by_source m src limit use_ai)"
    by (simp add: fetch_threats_by_source_def split: option.splits sum.splits)
next
  show "fst (snd (fetch_threats_by_source m src limit use_ai)) = m"
    by (rule manager_fetch_threats_by_source)
qed

theorem fetch_threats_by_source_unknown_witness:
  "''Unknown'' \<notin> fst ` set (scrapers sample_manager)
   \<and> fetch_threats_by_source sample_manager ''Unknown'' 20 True = (Inr [], sample_manager, [])"
  using fetch_threats_by_source_unknown[of "''Unknown''" sample_manager 20 True]
  by (simp add: sample_manager_scrapers new_manager_def)

text \<open>
  The name \<open>Unknown\<close> is not registered, and the call returns a result, the empty list,
  rather than an error.
\<close>

theorem fetch_threats_by_source_unknown_counterexample:
  "map_of (scrapers sample_manager) ''Unknown'' = None
   \<and> fst (fetch_threats_by_source sample_manager ''Unknown'' 20 True) = Inr []"
  by (simp add: fetch_threats_by_source_def sample_manager_scrapers new_manager_def)

section \<open>\<open>search_threats\<close>\<close>

text \<open>
  C9. For every manager, query and severity argument other than the empty string,
  \<open>search_threats\<close> returns exactly the cached items that the search rule of the
  specification selects, in cache order; the cache is the one the call leaves, which is
  the cache it found unless that was empty, in which case \<open>fetch_all_threats\<close> runs first.
  An empty string as severity is treated as no filter. On a non-empty cache no scraper
  is called.
\<close>

theorem search_threats_matches:
  "(sev \<noteq> Some [] \<longrightarrow>
      fst (search_threats m query sev utcnow utcnow')
        = claimed_search query sev
            (threat_cache (fst (snd (search_threats m query sev utcnow utcnow')))))
   \<and> fst (search_threats m query (Some []) utcnow utcnow')
       = claimed_search query None
           (threat_cache (fst (snd (search_threats m query (Some []) utcnow utcnow'))))
   \<and> fst (snd (search_threats m query sev utcnow utcnow'))
       = (if threat_cache m = [] then fst (snd (fetch_all_threats m 10 True utcnow utcnow'))
          else m)
   \<and> (threat_cache m \<noteq> [] \<longrightarrow> snd (snd (search_threats m query sev utcnow utcnow')) = [])"
proof (intro conjI impI)
  assume "sev \<noteq> Some []"
  then show "fst (search_threats m query sev utcnow utcnow')
        = claimed_search query sev
            (threat_cache (fst (snd (search_threats m query sev utcnow utcnow'))))"
    by (simp add: search_threats_result[of m query sev] search_loop_claimed)
next
  show "fst (search_threats m query (Some []) utcnow utcnow')
       = claimed_search query None
           (threat_cache (fst (snd (search_threats m query (Some []) utcnow utcnow'))))"
    by (simp add: search_threats_result[of m query "Some []"] search_loop_empty_filter
        search_loop_claimed)
next
  show "fst (snd (search_threats m query sev utcnow utcnow'))
       = (if threat_cache m = [] then fst (snd (fetch_all_threats m 10 True utcnow utcnow'))
          else m)"
    by (rule manager_search_threats)
next
  assume "threat_cache m \<noteq> []"
  then show "snd (snd (search_threats m query sev utcnow utcnow')) = []"
    by (simp add: search_threats_populated)
qed

theorem search_threats_matches_witness:
  "fst (search_threats sample_manager ''Ransomware'' None 1000 1001)
     = [threat_cache sample_manager ! 1]
   \<and> claimed_search ''Ransomware'' None (threat_cache sample_manager)
     = [threat_cache sample_manager ! 1]
   \<and> fst (search_threats sample_manager ''Ransomware'' (Some ''low'') 1000 1001) = []
   \<and> claimed_search ''Ransomware'' (Some ''low'') (threat_cache sample_manager) = []
   \<and> fst (search_threats sample_manager ''Ransomware'' (Some ''CRITICAL'') 1000 1001)
     = [threat_cache sample_manager ! 1]
   \<and> snd (snd (search_threats sample_manager ''Ransomware'' None 1000 1001)) = []"
proof -
  have c: "threat_cache sample_manager \<noteq> []"
    by (rule sample_manager_cache)
  have q: "lower ''Ransomware'' = ''ransomware''"
    by (simp add: eval_lower)
  have r: "search_threats sample_manager ''Ransomware'' sev 1000 1001
     = (search_loop ''ransomware'' sev sample_items, sample_manager, [])"
    for sev
    using c by (simp add: search_threats_populated q sample_cache)
  note w1 = search_threats_matches[of None sample_manager "''Ransomware''" 1000 1001]
  note w2 = search_threats_matches[of "Some ''low''" sample_manager "''Ransomware''" 1000 1001]
  from w1 have "claimed_search ''Ransomware'' None (threat_cache sample_manager)
     = [threat_cache sample_manager ! 1]"
    by (simp add: r sample_search_ransomware sample_cache)
  moreover from w2 have
    "claimed_search ''Ransomware'' (Some ''low'') (threat_cache sample_manager) = []"
    by (simp add: r sample_search_ransomware sample_cache)
  ultimately show ?thesis
    by (simp add: r sample_search_ransomware sample_cache)
qed

text \<open>
  With the empty string as severity filter the code returns the item whose title contains
  the query although its severity is \<open>critical\<close>; the rule as claimed selects nothing.
\<close>

theorem search_threats_matches_counterexample:
  "fst (search_threats sample_manager ''Ransomware'' (Some '''') 1000 1001)
     = [threat_cache sample_manager ! 1]
   \<and> claimed_search ''Ransomware'' (Some '''') (threat_cache sample_manager) = []"
proof -
  have q: "lower ''Ransomware'' = ''ransomware''"
    by (simp add: eval_lower)
  show ?thesis
    using sample_manager_cache
    by (simp add: search_threats_populated q sample_cache sample_search_ransomware
        sample_claimed_ransomware)
qed

text \<open>
  C10. On a non-empty cache, \<open>search_threats\<close> with the empty query returns the whole
  cache in cache order when no severity is given, and also when the severity given is the
  empty string; with a non-empty severity it returns exactly the cached threats whose
  severity equals it when both are lower-cased.
\<close>

theorem search_threats_empty_query:
  "threat_cache m \<noteq> [] \<longrightarrow>
     fst (search_threats m '''' None utcnow utcnow') = threat_cache m
     \<and> fst (search_threats m '''' (Some '''') utcnow utcnow') = threat_cache m
     \<and> (s \<noteq> [] \<longrightarrow>
          fst (search_threats m '''' (Some s) utcnow utcnow')
            = threats_of_severity s (threat_cache m))"
  by (simp add: search_threats_populated lower_Nil search_loop_empty_query)

theorem search_threats_empty_query_witness:
  "threat_cache sample_manager \<noteq> []
   \<and> fst (search_threats sample_manager '''' None 1000 1001) = threat_cache sample_manager
   \<and> fst (search_threats sample_manager '''' (Some ''HIGH'') 1000 1001)
       = [threat_cache sample_manager ! 0]"
  using search_threats_empty_query[of sample_manager 1000 1001 "''HIGH''"] sample_manager_cache
  by (simp add: sample_cache sample_of_severity)

text \<open>
  Empty query and empty severity filter: the code returns all three cached threats, none
  of which has the empty severity.
\<close>

theorem search_threats_empty_query_counterexample:
  "threat_cache sample_manager \<noteq> []
   \<and> fst (search_threats sample_manager '''' (Some '''') 1000 1001) = threat_cache sample_manager
   \<and> threats_of_severity '''' (threat_cache sample_manager) = []"
  using sample_manager_cache
  by (simp add: search_threats_populated lower_Nil search_loop_empty_query sample_cache
      sample_of_severity)

section \<open>Enrichment\<close>

text \<open>
  C7. \<open>enrich_threat\<close> returns the threat it was given with the four enrichment keys set
  and every other key as it was, so the nine raw fields keep their values. In the loop of
  the manager an item whose enrichment raises is kept as it came. Hence
  \<open>fetch_all_threats\<close> returns as many items with enrichment as without, and with this
  processor the two results agree item by item on the raw fields. A refresh with AI
  returns, sorted, what the registered scrapers returned, each item enriched, or kept as
  it came when its enrichment raised; a refresh without AI returns the same items
  unenriched. So with an enricher that raises on every item the call with AI does what
  the call without AI does, and with any enricher that leaves the raw fields of the items
  it enriches alone the two results agree item by item on the raw fields.
\<close>

theorem enrichment_additive:
  "(\<exists>s i a r. enrich_threat p t =
      Inr (t\<lparr>quick_summary := Some s, iocs := Some i, affected_systems := Some a,
              recommendations := Some r\<rparr>))
   \<and> (case enrich_threat p t of Inl e \<Rightarrow> False | Inr e \<Rightarrow> raw_fields e = raw_fields t)
   \<and> enrich_all ai ts = map (\<lambda>t. case ai t of Inl e \<Rightarrow> t | Inr enriched \<Rightarrow> enriched) ts
   \<and> length (fst (fetch_all_threats m l True utcnow utcnow'))
       = length (fst (fetch_all_threats m l False utcnow utcnow'))
   \<and> map raw_fields (fst (fetch_all_threats (m\<lparr>ai_processor := enrich_threat p\<rparr>) l True utcnow utcnow'))
       = map raw_fields (fst (fetch_all_threats (m\<lparr>ai_processor := enrich_threat p\<rparr>) l False utcnow utcnow'))
   \<and> fst (fetch_all_threats m l True utcnow utcnow')
       = (if is_cache_valid m utcnow then threat_cache m
          else sort_published_desc
                 (map (enriched_or_kept (ai_processor m)) (registry_output l (scrapers m))))
   \<and> fst (fetch_all_threats m l False utcnow utcnow')
       = (if is_cache_valid m utcnow then threat_cache m
          else sort_published_desc (registry_output l (scrapers m)))
   \<and> (ai t = Inl e \<longrightarrow> enriched_or_kept ai t = t)
   \<and> fetch_all_threats (m\<lparr>ai_processor := \<lambda>t. Inl e\<rparr>) l True utcnow utcnow'
       = fetch_all_threats (m\<lparr>ai_processor := \<lambda>t. Inl e\<rparr>) l False utcnow utcnow'
   \<and> ((\<forall>t enriched. ai_processor m t = Inr enriched \<longrightarrow> raw_fields enriched = raw_fields t)
        \<longrightarrow> map raw_fields (fst (fetch_all_threats m l True utcnow utcnow'))
              = map raw_fields (fst (fetch_all_threats m l False utcnow utcnow')))"
proof (intro conjI impI)
  show "\<exists>s i a r. enrich_threat p t =
      Inr (t\<lparr>quick_summary := Some s, iocs := Some i, affected_systems := Some a,
              recommendations := Some r\<rparr>)"
    by (rule enrich_threat_fields)
next
  show "case enrich_threat p t of Inl e \<Rightarrow> False | Inr e \<Rightarrow> raw_fields e = raw_fields t"
    by (simp add: enrich_threat_def Let_def raw_fields_def)
next
  show "enrich_all ai ts = map (\<lambda>t. case ai t of Inl e \<Rightarrow> t | Inr enriched \<Rightarrow> enriched) ts"
    by (rule enrich_all_map)
next
  show "length (fst (fetch_all_threats m l True utcnow utcnow'))
       = length (fst (fetch_all_threats m l False utcnow utcnow'))"
    by (rule length_fetch_all_threats)
next
  show "map raw_fields (fst (fetch_all_threats (m\<lparr>ai_processor := enrich_threat p\<rparr>) l True utcnow utcnow'))
       = map raw_fields (fst (fetch_all_threats (m\<lparr>ai_processor := enrich_threat p\<rparr>) l False utcnow utcnow'))"
    by (rule raw_fields_fetch_all_threats) (simp add: raw_fields_enrich_threat)
next
  show "fst (fetch_all_threats m l True utcnow utcnow')
       = (if is_cache_valid m utcnow then threat_cache m
          else sort_published_desc
                 (map (enriched_or_kept (ai_processor m)) (registry_output l (scrapers m))))"
    by (simp add: fetch_all_threats_output)
next
  show "fst (fetch_all_threats m l False utcnow utcnow')
       = (if is_cache_valid m utcnow then threat_cache m
          else sort_published_desc (registry_output l (scrapers m)))"
    by (simp add: fetch_all_threats_output)
next
  assume "ai t = Inl e"
  then show "enriched_or_kept ai t = t"
    by (simp add: enriched_or_kept_def)
next
  show "fetch_all_threats (m\<lparr>ai_processor := \<lambda>t. Inl e\<rparr>) l True utcnow utcnow'
       = fetch_all_threats (m\<lparr>ai_processor := \<lambda>t. Inl e\<rparr>) l False utcnow utcnow'"
    by (rule fetch_all_threats_raising)
next
  assume "\<forall>t enriched. ai_processor m t = Inr enriched \<longrightarrow> raw_fields enriched = raw_fields t"
  then show "map raw_fields (fst (fetch_all_threats m l True utcnow utcnow'))
              = map raw_fields (fst (fetch_all_threats m l False utcnow utcnow'))"
    by (intro raw_fields_fetch_all_threats) blast
qed

theorem enrichment_additive_witness:
  "length (fst (fetch_all_threats (new_manager sample_world sample_processor) 10 True 0 1)) = 13
   \<and> length (fst (fetch_all_threats (new_manager sample_world sample_processor) 10 False 0 1)) = 13
   \<and> raw_fields (hd (enrich_all (enrich_threat sample_processor)
                       (FBI_get_fallback_data sample_world)))
       = raw_fields (hd (FBI_get_fallback_data sample_world))
   \<and> enrich_all (\<lambda>t. Inl (Exception ''timeout'')) (FBI_get_fallback_data sample_world)
       = FBI_get_fallback_data sample_world
   \<and> fst (fetch_all_threats
            ((new_manager sample_world sample_processor)
               \<lparr>ai_processor := \<lambda>t. Inl (Exception ''timeout'')\<rparr>) 1 True 0 0)
       = sample_items"
proof -
  let ?new = "new_manager sample_world sample_processor"
  let ?raising = "\<lambda>t::threat. (Inl (Exception ''timeout'') :: error + threat)"
  let ?m = "?new\<lparr>ai_processor := ?raising\<rparr>"
  let ?fbi = "FBI_get_fallback_data sample_world"
  note w = enrichment_additive[of sample_processor "hd ?fbi" ?raising ?fbi ?new 10 0 1
      "Exception ''timeout''"]
  note v = enrichment_additive[of sample_processor "hd ?fbi" "enrich_threat sample_processor"
      ?fbi ?new 10 0 1 "Exception ''timeout''"]
  note f = enrichment_additive[of sample_processor "hd ?fbi" ?raising ?fbi ?m 1 0 0
      "Exception ''timeout''"]
  from w have "length (fst (fetch_all_threats ?new 10 True 0 1))
                 = length (fst (fetch_all_threats ?new 10 False 0 1))"
    by blast
  then have len: "length (fst (fetch_all_threats ?new 10 True 0 1)) = 13"
    by (simp add: sample_collected_length)
  from w have "enrich_all ?raising ?fbi
                 = map (\<lambda>t. case ?raising t of Inl e \<Rightarrow> t | Inr enriched \<Rightarrow> enriched) ?fbi"
    by blast
  then have kept: "enrich_all ?raising ?fbi = ?fbi"
    by simp
  from v have "enrich_all (enrich_threat sample_processor) ?fbi
                 = map (\<lambda>t. case enrich_threat sample_processor t of
                               Inl e \<Rightarrow> t | Inr enriched \<Rightarrow> enriched) ?fbi"
    by blast
  moreover from v have "case enrich_threat sample_processor (hd ?fbi) of
                          Inl e \<Rightarrow> False | Inr e \<Rightarrow> raw_fields e = raw_fields (hd ?fbi)"
    by blast
  ultimately have raw: "raw_fields (hd (enrich_all (enrich_threat sample_processor) ?fbi))
                          = raw_fields (hd ?fbi)"
    by (auto simp: FBI_get_fallback_data_def split: sum.splits)
  from f have "fetch_all_threats (?m\<lparr>ai_processor := ?raising\<rparr>) 1 True 0 0
                 = fetch_all_threats (?m\<lparr>ai_processor := ?raising\<rparr>) 1 False 0 0"
    by blast
  then have same: "fetch_all_threats ?m 1 True 0 0 = fetch_all_threats ?m 1 False 0 0"
    by simp
  from f have "fst (fetch_all_threats ?m 1 False 0 0)
       = (if is_cache_valid ?m 0 then threat_cache ?m
          else sort_published_desc (registry_output 1 (scrapers ?m)))"
    by blast
  moreover have "\<not> is_cache_valid ?m 0"
    by (simp add: is_cache_valid_def new_manager_def)
  moreover have "scrapers ?m = scrapers sample_manager"
    by (simp add: sample_manager_scrapers)
  ultimately have "fst (fetch_all_threats ?m 1 False 0 0) = sample_items"
    by (simp add: sample_registry_output sample_fallbacks_sorted)
  with same have failing: "fst (fetch_all_threats ?m 1 True 0 0) = sample_items"
    by simp
  show ?thesis
    using len kept raw failing sample_collected_length by blast
qed

text \<open>
  C4. The lists are capped on every path: at most 10 indicators, 5 affected systems and
  5 recommendations, and these are the lists \<open>enrich_threat\<close> stores under the three
  keys. When the client answers, each list is the first 10 (5, 5) parsed
  lines of the answer, in the order of the answer. A fallback is used when there is no
  client or the call raises. The fallback for affected systems returns the first 5 names
  of the fixed vocabulary that occur in the title and content, in vocabulary order (or one
  fixed line when none occurs); the fallback for recommendations returns the first 5 of
  its fixed list. The fallback for indicators returns the first 5 elements of the set of
  the matches of the pattern in the content and title, in the order in which the
  interpreter iterates that set; when that iteration is a duplicate-free enumeration of
  the set's elements, these are distinct matches.
\<close>

theorem enrichment_lists_capped:
  "length (extract_iocs p t) \<le> 10
   \<and> length (identify_affected_systems p t) \<le> 5
   \<and> length (generate_recommendations p t) \<le> 5
   \<and> (case enrich_threat p t of
        Inl e \<Rightarrow> False
      | Inr enriched \<Rightarrow>
          iocs enriched = Some (extract_iocs p t)
          \<and> affected_systems enriched = Some (identify_affected_systems p t)
          \<and> recommendations enriched = Some (generate_recommendations p t))
   \<and> (client p = Some create \<and> create IocsRequest t = Inr content \<longrightarrow>
        extract_iocs p t
          = (if lower (strip content) = ''none'' then []
             else take 10 (stripped_lines (strip content))))
   \<and> (client p = Some create \<and> create SystemsRequest t = Inr content \<longrightarrow>
        identify_affected_systems p t
          = (if lower (strip content) = ''not specified'' then [''Not specified in alert'']
             else take 5 (stripped_lines (strip content))))
   \<and> (client p = Some create \<and> create RecommendationsRequest t = Inr content \<longrightarrow>
        generate_recommendations p t
          = take 5 (parse_recommendations (split_newline (strip content))))
   \<and> (client p = None \<longrightarrow> extract_iocs p t = fallback_iocs p t)
   \<and> (client p = Some create \<and> create IocsRequest t = Inl e \<longrightarrow>
        extract_iocs p t = fallback_iocs p t)
   \<and> length (fallback_iocs p t) \<le> 5
   \<and> ((\<forall>xs. distinct (set_order p xs) \<and> set (set_order p xs) = set xs) \<longrightarrow>
        distinct (fallback_iocs p t)
        \<and> set (fallback_iocs p t)
            \<subseteq> set (findall_cve (get (full_content t) '''' @ '' '' @ get (title t) '''')))
   \<and> fallback_iocs p t
       = take 5 (set_order p
                   (findall_cve (get (full_content t) '''' @ '' '' @ get (title t) '''')))
   \<and> fallback_affected_systems t
       = (let found =
                filter (\<lambda>system. sublist (lower system)
                                    (lower (get (title t) '''' @ '' '' @ get (full_content t) '''')))
                  common_systems
          in if found = [] then [''Multiple systems potentially affected'']
             else take 5 found)
   \<and> fallback_recommendations t
       = take 5
           (if get (severity t) ''medium'' = ''critical'' \<or> get (severity t) ''medium'' = ''high''
            then [''Implement emergency security measures immediately'',
                  ''Review security logs for signs of compromise'',
                  ''Ensure all systems are patched to the latest versions'',
                  ''Monitor network traffic for suspicious activity'',
                  ''Consider temporary isolation of affected systems'']
            else [''Review security logs for signs of compromise'',
                  ''Ensure all systems are patched to the latest versions'',
                  ''Monitor network traffic for suspicious activity''])
   \<and> (client p = None \<longrightarrow>
        identify_affected_systems p t = fallback_affected_systems t
        \<and> generate_recommendations p t = fallback_recommendations t)
   \<and> (client p = Some create \<and> create SystemsRequest t = Inl e \<longrightarrow>
        identify_affected_systems p t = fallback_affected_systems t)
   \<and> (client p = Some create \<and> create RecommendationsRequest t = Inl e \<longrightarrow>
        generate_recommendations p t = fallback_recommendations t)"
proof (intro conjI impI)
  show "length (extract_iocs p t) \<le> 10" by (rule length_extract_iocs)
  show "length (identify_affected_systems p t) \<le> 5" by (rule length_identify_affected_systems)
  show "length (generate_recommendations p t) \<le> 5" by (rule length_generate_recommendations)
  show "length (fallback_iocs p t) \<le> 5" by (rule length_fallback_iocs)
  show "case enrich_threat p t of
        Inl e \<Rightarrow> False
      | Inr enriched \<Rightarrow>
          iocs enriched = Some (extract_iocs p t)
          \<and> affected_systems enriched = Some (identify_affected_systems p t)
          \<and> recommendations enriched = Some (generate_recommendations p t)"
    by (simp add: enrich_threat_def Let_def)
next
  assume "client p = Some create \<and> create IocsRequest t = Inr content"
  then show "extract_iocs p t
          = (if lower (strip content) = ''none'' then []
             else take 10 (stripped_lines (strip content)))"
    by (simp add: extract_iocs_def Let_def slice_to_numeral)
next
  assume "client p = Some create \<and> create SystemsRequest t = Inr content"
  then show "identify_affected_systems p t
          = (if lower (strip content) = ''not specified'' then [''Not specified in alert'']
             else take 5 (stripped_lines (strip content)))"
    by (simp add: identify_affected_systems_def Let_def slice_to_numeral)
next
  assume "client p = Some create \<and> create RecommendationsRequest t = Inr content"
  then show "generate_recommendations p t
          = take 5 (parse_recommendations (split_newline (strip content)))"
    by (simp add: generate_recommendations_def Let_def slice_to_numeral)
next
  assume "client p = None"
  then show "extract_iocs p t = fallback_iocs p t"
    by (simp add: extract_iocs_def)
next
  assume "client p = Some create \<and> create IocsRequest t = Inl e"
  then show "extract_iocs p t = fallback_iocs p t"
    by (simp add: extract_iocs_def)
next
  assume a: "\<forall>xs. distinct (set_order p xs) \<and> set (set_order p xs) = set xs"
  show "distinct (fallback_iocs p t)"
    using fallback_iocs_distinct[OF a] by blast
  show "set (fallback_iocs p t)
            \<subseteq> set (findall_cve (get (full_content t) '''' @ '' '' @ get (title t) ''''))"
    using fallback_iocs_distinct[OF a] by blast
next
  show "fallback_iocs p t
       = take 5 (set_order p
                   (findall_cve (get (full_content t) '''' @ '' '' @ get (title t) '''')))"
    by (simp add: fallback_iocs_def Let_def slice_to_numeral)
next
  show "fallback_affected_systems t
       = (let found =
                filter (\<lambda>system. sublist (lower system)
                                    (lower (get (title t) '''' @ '' '' @ get (full_content t) '''')))
                  common_systems
          in if found = [] then [''Multiple systems potentially affected'']
             else take 5 found)"
    by (simp add: fallback_affected_systems_def Let_def slice_to_numeral py_in_sublist)
next
  show "fallback_recommendations t
       = take 5
           (if get (severity t) ''medium'' = ''critical'' \<or> get (severity t) ''medium'' = ''high''
            then [''Implement emergency security measures immediately'',
                  ''Review security logs for signs of compromise'',
                  ''Ensure all systems are patched to the latest versions'',
                  ''Monitor network traffic for suspicious activity'',
                  ''Consider temporary isolation of affected systems'']
            else [''Review security logs for signs of compromise'',
                  ''Ensure all systems are patched to the latest versions'',
                  ''Monitor network traffic for suspicious activity''])"
    by (simp add: fallback_recommendations_def Let_def slice_to_numeral)
next
  assume "client p = None"
  then show "identify_affected_systems p t = fallback_affected_systems t"
    by (simp add: identify_affected_systems_def)
next
  assume "client p = None"
  then show "generate_recommendations p t = fallback_recommendations t"
    by (simp add: generate_recommendations_def)
next
  assume "client p = Some create \<and> create SystemsRequest t = Inl e"
  then show "identify_affected_systems p t = fallback_affected_systems t"
    by (simp add: identify_affected_systems_def)
next
  assume "client p = Some create \<and> create RecommendationsRequest t = Inl e"
  then show "generate_recommendations p t = fallback_recommendations t"
    by (simp add: generate_recommendations_def)
qed

theorem enrichment_lists_capped_witness:
  "client answering_processor \<noteq> None
   \<and> extract_iocs answering_processor (with_content ''x'')
       = [''1. evil.example.com'', ''- CVE-2021-44228'', ''note'']
   \<and> generate_recommendations answering_processor (with_content ''x'')
       = [''evil.example.com'', ''CVE-2021-44228'']
   \<and> distinct (fallback_iocs sample_processor
         (with_content ''See CVE-2024-1234 and again CVE-2024-1234.''))
   \<and> extract_iocs sample_processor
         (with_content ''See CVE-2024-1234 and again CVE-2024-1234.'')
       = fallback_iocs sample_processor
           (with_content ''See CVE-2024-1234 and again CVE-2024-1234.'')
   \<and> fallback_iocs sample_processor
         (with_content ''See CVE-2024-1234 and again CVE-2024-1234.'')
       = [''CVE-2024-1234'']
   \<and> identify_affected_systems sample_processor
         (with_content ''Edge, Firefox, Android, iOS, macOS, Linux and Windows are affected'')
       = [''Windows'', ''Linux'', ''macOS'', ''iOS'', ''Android'']
   \<and> generate_recommendations sample_processor (with_content ''x'')
       = [''Review security logs for signs of compromise'',
          ''Ensure all systems are patched to the latest versions'',
          ''Monitor network traffic for suspicious activity'']"
proof -
  let ?create = "\<lambda>(request::request) (t::threat). (Inr sample_answer :: error + string)"
  let ?twice = "with_content ''See CVE-2024-1234 and again CVE-2024-1234.''"
  let ?seven = "with_content ''Edge, Firefox, Android, iOS, macOS, Linux and Windows are affected''"
  have c: "client answering_processor = Some ?create"
    by (simp add: answering_processor_def)
  have o: "\<forall>xs. distinct (set_order sample_processor xs)
                \<and> set (set_order sample_processor xs) = set xs"
    by (simp add: sample_processor_def)
  have k: "client sample_processor = None"
    by (simp add: sample_processor_def)
  note a = enrichment_lists_capped[of answering_processor "with_content ''x''" ?create
      sample_answer]
  note b = enrichment_lists_capped[of sample_processor ?twice]
  note s = enrichment_lists_capped[of sample_processor ?seven]
  note r = enrichment_lists_capped[of sample_processor "with_content ''x''"]
  from a c have ai_iocs: "extract_iocs answering_processor (with_content ''x'')
       = [''1. evil.example.com'', ''- CVE-2021-44228'', ''note'']"
    by (simp add: sample_answer_not_none sample_answer_lines)
  from a c have ai_recs: "generate_recommendations answering_processor (with_content ''x'')
       = [''evil.example.com'', ''CVE-2021-44228'']"
    by (simp add: sample_answer_recommendations)
  from b o have d: "distinct (fallback_iocs sample_processor ?twice)"
    by blast
  from b k have fb: "extract_iocs sample_processor ?twice = fallback_iocs sample_processor ?twice"
    by blast
  from b have "fallback_iocs sample_processor ?twice
       = take 5 (set_order sample_processor
                   (findall_cve (get (full_content ?twice) '''' @ '' '' @ get (title ?twice) '''')))"
    by blast
  then have once: "fallback_iocs sample_processor ?twice = [''CVE-2024-1234'']"
    by (simp add: with_content_def dated_def get_def sample_findall_twice sample_processor_def)
  from s k have "identify_affected_systems sample_processor ?seven = fallback_affected_systems ?seven"
    by blast
  moreover from s have "fallback_affected_systems ?seven
       = (let found =
                filter (\<lambda>system. sublist (lower system)
                          (lower (get (title ?seven) '''' @ '' '' @ get (full_content ?seven) '''')))
                  common_systems
          in if found = [] then [''Multiple systems potentially affected'']
             else take 5 found)"
    by blast
  ultimately have five: "identify_affected_systems sample_processor ?seven
       = [''Windows'', ''Linux'', ''macOS'', ''iOS'', ''Android'']"
    by (simp add: with_content_def dated_def get_def sample_systems)
  from r k have "generate_recommendations sample_processor (with_content ''x'')
       = fallback_recommendations (with_content ''x'')"
    by blast
  moreover from r have "fallback_recommendations (with_content ''x'')
       = take 5
           (if get (severity (with_content ''x'')) ''medium'' = ''critical''
               \<or> get (severity (with_content ''x'')) ''medium'' = ''high''
            then [''Implement emergency security measures immediately'',
                  ''Review security logs for signs of compromise'',
                  ''Ensure all systems are patched to the latest versions'',
                  ''Monitor network traffic for suspicious activity'',
                  ''Consider temporary isolation of affected systems'']
            else [''Review security logs for signs of compromise'',
                  ''Ensure all systems are patched to the latest versions'',
                  ''Monitor network traffic for suspicious activity''])"
    by blast
  ultimately have three: "generate_recommendations sample_processor (with_content ''x'')
       = [''Review security logs for signs of compromise'',
          ''Ensure all systems are patched to the latest versions'',
          ''Monitor network traffic for suspicious activity'']"
    by (simp add: with_content_def dated_def get_def)
  show ?thesis
    using c ai_iocs ai_recs d fb once five three by simp
qed

text \<open>
  A content that names the same CVE twice: the pattern matches twice, the fallback returns
  the id once. And a content with two ids, under a set iteration that is not the order of
  occurrence: the fallback returns them in the iteration's order.
\<close>

theorem enrichment_lists_capped_counterexample:
  "findall_cve (''See CVE-2024-1234 and again CVE-2024-1234.'' @ '' '' @ ''Advisory'')
     = [''CVE-2024-1234'', ''CVE-2024-1234'']
   \<and> extract_iocs sample_processor
         (with_content ''See CVE-2024-1234 and again CVE-2024-1234.'')
       = [''CVE-2024-1234'']
   \<and> findall_cve (''cve-2024-0001, CVE-2024-00022222x'' @ '' '' @ ''Advisory'')
     = [''cve-2024-0001'', ''CVE-2024-0002222'']
   \<and> extract_iocs reversing_processor (with_content ''cve-2024-0001, CVE-2024-00022222x'')
       = [''CVE-2024-0002222'', ''cve-2024-0001'']"
  by (simp add: sample_findall_twice sample_findall_two extract_iocs_def fallback_iocs_def
      sample_processor_def reversing_processor_def with_content_def dated_def get_def
      slice_to_def)

section \<open>The scrapers on failure\<close>

text \<open>
  C3. In a world where the CISA feed and the CISA page cannot be reached,
  \<open>fetch_threats\<close> of the CISA scraper with limit 1 returns the empty list, although the
  fallback list cut to 1 item is not empty. In the same world the BleepingComputer
  scraper, whose feed fails as well, returns its fallback list cut to 1 item.
\<close>

theorem CISA_fetch_threats_outage:
  "cisa_feed sample_world = Inl (Exception ''connection refused'')
   \<and> CISA_fetch_threats sample_world 1 = Inr []
   \<and> length (slice_to 1 (CISA_get_fallback_data sample_world)) = 1
   \<and> bleeping_feed sample_world = Inl (Exception ''connection refused'')
   \<and> Bleeping_fetch_threats sample_world 1
       = Inr (slice_to 1 (Bleeping_get_fallback_data sample_world))
   \<and> length (slice_to 1 (Bleeping_get_fallback_data sample_world)) = 1"
  by (simp add: CISA_fetch_threats_eq CISA_fetch_from_rss_def Bleeping_fetch_threats_eq
      Bleeping_fetch_from_rss_def sample_world_def slice_to_def CISA_get_fallback_data_def
      Bleeping_get_fallback_data_def)

end
